theory Spec2Isabelle
  imports Main "HOL-Library.Word" "HOL-Library.AList"
begin

unbundle bit_operations_syntax

section \<open>Machine types and the hash combinator (shader\_helper.hpp)\<close>

text \<open>
  \<open>size_t\<close> is taken as 64 bits wide (the cache header of vulkan\_shader.hpp stores it in
  eight bytes); \<open>uint32_t\<close>, \<open>VkFlags\<close>, \<open>VkBool32\<close> and the Vulkan enumerations are 32-bit
  values. A \<open>float\<close> is carried by its 32-bit pattern.
\<close>

type_synonym size_t = "64 word"
type_synonym uint32_t = "32 word"
type_synonym uint16_t = "16 word"
type_synonym byte = "8 word"
type_synonym float32 = "32 word"
type_synonym path = string

text \<open>
  The values \<open>hashCombine\<close> is instantiated with, one constructor per instantiation type
  \<open>T\<close> of the template.
\<close>

datatype hval =
    HSize size_t
  | HU32 uint32_t
  | HU16 uint16_t
  | HI32 uint32_t
  | HEnum uint32_t
  | HFloat float32
  | HStr string

text \<open>
  \<open>std::hash<T>\<close> belongs to the standard library, not to the repository: every function
  below takes it as the parameter \<open>H\<close>.
\<close>

type_synonym std_hash = "hval \<Rightarrow> size_t"

text \<open>
  \<^verbatim>\<open>p_Seed ^= l_Hash + 0x9e3779b9 + (p_Seed << 6) + (p_Seed >> 2);\<close>
\<close>

definition hashCombine :: "std_hash \<Rightarrow> size_t \<Rightarrow> hval \<Rightarrow> size_t" where
  "hashCombine H p_Seed p_Element =
     p_Seed XOR (H p_Element + 0x9e3779b9 + push_bit 6 p_Seed + drop_bit 2 p_Seed)"

text \<open>A run of \<open>hashCombine\<close> calls on one accumulator, in program order.\<close>

definition hashCombineAll :: "std_hash \<Rightarrow> size_t \<Rightarrow> hval list \<Rightarrow> size_t" where
  "hashCombineAll H p_Seed vs = foldl (hashCombine H) p_Seed vs"

section \<open>ShaderHash\<close>

record ShaderHash =
  m_Data :: "string list"
  m_HashValue :: size_t

definition ShaderHash_init :: ShaderHash where
  "ShaderHash_init = \<lparr> m_Data = [], m_HashValue = 0 \<rparr>"

definition addString :: "string \<Rightarrow> ShaderHash \<Rightarrow> ShaderHash" where
  "addString p_Content h = h\<lparr> m_Data := m_Data h @ [p_Content] \<rparr>"

definition addMacro :: "string \<Rightarrow> string \<Rightarrow> ShaderHash \<Rightarrow> ShaderHash" where
  "addMacro p_Name p_Value h = h\<lparr> m_Data := m_Data h @ [p_Name @ ''='' @ p_Value] \<rparr>"

text \<open>
  \<open>ShaderHash::getHash\<close> is \<open>const\<close> but writes the \<open>mutable\<close> memo \<open>m_HashValue\<close>: the
  model returns the value together with the object.
\<close>

definition ShaderHash_getHash :: "std_hash \<Rightarrow> ShaderHash \<Rightarrow> size_t \<times> ShaderHash" where
  "ShaderHash_getHash H h =
     (if m_HashValue h = 0
      then (let l_CombinedHash = hashCombineAll H 0 (map HStr (m_Data h))
            in (l_CombinedHash, h\<lparr> m_HashValue := l_CombinedHash \<rparr>))
      else (m_HashValue h, h))"


section \<open>VulkanShader: data (vulkan\_shader.hpp)\<close>

datatype Status = NOT_READY | CACHED | FAILED | COMPILED

record Result =
  status :: Status
  error :: string

datatype SourceType = FILE | STRING

text \<open>
  The members \<open>data\<close>, \<open>type\<close>, \<open>name\<close> of \<open>ModuleData\<close> and \<open>stage\<close>, \<open>name\<close>, \<open>spirv\<close> of
  \<open>CachedCodes\<close> carry a prefix, since a record field is a global constant.
\<close>

record ModuleData =
  md_data :: string
  md_type :: SourceType
  md_name :: string

record CachedCodes =
  cc_stage :: uint32_t
  cc_name :: string
  cc_spirv :: "uint32_t list"

text \<open>How a call can end other than by returning: a C++ exception, or undefined behaviour.\<close>

datatype fault =
    RuntimeError string
  | NullDeref
  | OutOfBounds

subsection \<open>The compiler backend and the environment\<close>

datatype SlangStage =
    SLANG_STAGE_NONE
  | SLANG_STAGE_VERTEX
  | SLANG_STAGE_HULL
  | SLANG_STAGE_DOMAIN
  | SLANG_STAGE_GEOMETRY
  | SLANG_STAGE_FRAGMENT
  | SLANG_STAGE_COMPUTE
  | SLANG_STAGE_RAY_GENERATION
  | SLANG_STAGE_INTERSECTION
  | SLANG_STAGE_ANY_HIT
  | SLANG_STAGE_CLOSEST_HIT
  | SLANG_STAGE_MISS
  | SLANG_STAGE_CALLABLE
  | SLANG_STAGE_MESH
  | SLANG_STAGE_AMPLIFICATION

record EntryPoint =
  ep_stage :: SlangStage
  ep_name :: string

text \<open>
  A loaded module is known by its name and by what \<open>getDefinedEntryPoint(i)\<close> gives for each
  \<open>i\<close> below \<open>getDefinedEntryPointCount()\<close>: \<open>None\<close> where the call fails.
\<close>

datatype Component =
    ModuleComponent string "EntryPoint option list"
  | EntryPointComponent EntryPoint

text \<open>
  A linked program is known by the entry points of its layout, each with the result of
  \<open>getEntryPointCode\<close> (\<open>None\<close> where it fails); the code blob is taken as whole 32-bit
  words.
\<close>

type_synonym Program = "(EntryPoint \<times> uint32_t list option) list"

record Session =
  ses_thread :: nat
  ses_optimize :: bool
  ses_searchPaths :: "string set"
  ses_macros :: "(string \<times> string) list"

text \<open>
  Everything outside the repository that the code calls: the Slang backend, whether a file
  can be opened for writing, and the path functions of \<open>std::filesystem\<close>.
\<close>

record Env =
  createGlobalSession :: "nat \<Rightarrow> bool"
  createSession :: "Session \<Rightarrow> bool"
  loadModuleFromSourceString :: "Session \<Rightarrow> string \<Rightarrow> string \<Rightarrow> EntryPoint option list option"
  createCompositeComponentType :: "Session \<Rightarrow> Component list \<Rightarrow> Program option"
  getBuildTagString :: "nat \<Rightarrow> string"
  openForWriting :: "path \<Rightarrow> bool"
  parent_path :: "path \<Rightarrow> path"
  directory_entries :: "path \<Rightarrow> bool \<Rightarrow> (path \<times> bool) list option"
  extension :: "path \<Rightarrow> string"

subsection \<open>The object and the world it acts on\<close>

record VulkanShader =
  m_Modules :: "ModuleData list"
  m_CachedCodes :: "CachedCodes list"
  m_ExpectedStages :: uint32_t
  m_ExpectedEntryPoints :: "string list"
  m_Hash :: ShaderHash
  m_UseCache :: bool
  m_HashFile :: path
  m_Macros :: "(string \<times> string) list"
  m_SearchPaths :: "string set"
  m_Result :: Result
  m_SlangSession :: "Session option"
  m_SlangComponents :: "Component list"
  m_SlangProgram :: "Program option"
  m_Optimize :: bool
  m_CompilationThread :: nat

text \<open>
  The world: the static map \<open>s_SlangSessions\<close> (its keys), the files by path, and a log
  holding the files as they were after each step that changed them.
\<close>

type_synonym disk = "(path \<times> string) list"

record System = VulkanShader +
  s_SlangSessions :: "nat set"
  files :: disk
  files_log :: "disk list"

type_synonym ('a, 's) res = "(fault + 'a) \<times> 's"
type_synonym 'a outcome = "('a, System) res"

text \<open>Sequencing: a fault ends the run and keeps the state reached.\<close>

definition and_then :: "('a, 's) res \<Rightarrow> ('a \<Rightarrow> 's \<Rightarrow> ('b, 's) res) \<Rightarrow> ('b, 's) res" where
  "and_then r f = (case r of (Inl e, s) \<Rightarrow> (Inl e, s) | (Inr a, s) \<Rightarrow> f a s)"

definition CACHE_VERSION :: uint32_t where "CACHE_VERSION = 1"
definition CACHE_MAGIC :: uint32_t where "CACHE_MAGIC = 0x53504956"
definition SPIRV_PROFILE :: string where "SPIRV_PROFILE = ''spirv_1_5''"

text \<open>\<open>VulkanShader(p_CompilationThread, p_Optimize, p_Macros)\<close> in a given world.\<close>

definition VulkanShader_init ::
  "nat \<Rightarrow> bool \<Rightarrow> (string \<times> string) list \<Rightarrow> nat set \<Rightarrow> disk \<Rightarrow> System" where
  "VulkanShader_init p_CompilationThread p_Optimize p_Macros sessions d =
     \<lparr> m_Modules = [], m_CachedCodes = [], m_ExpectedStages = 0, m_ExpectedEntryPoints = [],
       m_Hash = ShaderHash_init, m_UseCache = False, m_HashFile = [],
       m_Macros = p_Macros, m_SearchPaths = {},
       m_Result = \<lparr> status = NOT_READY, error = [] \<rparr>,
       m_SlangSession = None, m_SlangComponents = [], m_SlangProgram = None,
       m_Optimize = p_Optimize, m_CompilationThread = p_CompilationThread,
       s_SlangSessions = sessions, files = d, files_log = [] \<rparr>"

definition set_failed :: "string \<Rightarrow> System \<Rightarrow> System" where
  "set_failed msg s = s\<lparr> m_Result := \<lparr> status = FAILED, error = msg \<rparr> \<rparr>"

subsection \<open>Stage conversion (shader\_helper.hpp)\<close>

definition VK_SHADER_STAGE_VERTEX_BIT :: uint32_t where "VK_SHADER_STAGE_VERTEX_BIT = 0x1"
definition VK_SHADER_STAGE_TESSELLATION_CONTROL_BIT :: uint32_t where
  "VK_SHADER_STAGE_TESSELLATION_CONTROL_BIT = 0x2"
definition VK_SHADER_STAGE_TESSELLATION_EVALUATION_BIT :: uint32_t where
  "VK_SHADER_STAGE_TESSELLATION_EVALUATION_BIT = 0x4"
definition VK_SHADER_STAGE_GEOMETRY_BIT :: uint32_t where "VK_SHADER_STAGE_GEOMETRY_BIT = 0x8"
definition VK_SHADER_STAGE_FRAGMENT_BIT :: uint32_t where "VK_SHADER_STAGE_FRAGMENT_BIT = 0x10"
definition VK_SHADER_STAGE_COMPUTE_BIT :: uint32_t where "VK_SHADER_STAGE_COMPUTE_BIT = 0x20"
definition VK_SHADER_STAGE_MESH_BIT_EXT :: uint32_t where "VK_SHADER_STAGE_MESH_BIT_EXT = 0x80"
definition VK_SHADER_STAGE_RAYGEN_BIT_KHR :: uint32_t where "VK_SHADER_STAGE_RAYGEN_BIT_KHR = 0x100"
definition VK_SHADER_STAGE_ANY_HIT_BIT_KHR :: uint32_t where "VK_SHADER_STAGE_ANY_HIT_BIT_KHR = 0x200"
definition VK_SHADER_STAGE_CLOSEST_HIT_BIT_KHR :: uint32_t where
  "VK_SHADER_STAGE_CLOSEST_HIT_BIT_KHR = 0x400"
definition VK_SHADER_STAGE_MISS_BIT_KHR :: uint32_t where "VK_SHADER_STAGE_MISS_BIT_KHR = 0x800"
definition VK_SHADER_STAGE_INTERSECTION_BIT_KHR :: uint32_t where
  "VK_SHADER_STAGE_INTERSECTION_BIT_KHR = 0x1000"
definition VK_SHADER_STAGE_CALLABLE_BIT_KHR :: uint32_t where
  "VK_SHADER_STAGE_CALLABLE_BIT_KHR = 0x2000"

definition getSlangStageFromVkStage :: "uint32_t \<Rightarrow> fault + SlangStage" where
  "getSlangStageFromVkStage p_Stage =
     (if p_Stage = VK_SHADER_STAGE_VERTEX_BIT then Inr SLANG_STAGE_VERTEX
      else if p_Stage = VK_SHADER_STAGE_FRAGMENT_BIT then Inr SLANG_STAGE_FRAGMENT
      else if p_Stage = VK_SHADER_STAGE_COMPUTE_BIT then Inr SLANG_STAGE_COMPUTE
      else if p_Stage = VK_SHADER_STAGE_GEOMETRY_BIT then Inr SLANG_STAGE_GEOMETRY
      else if p_Stage = VK_SHADER_STAGE_TESSELLATION_CONTROL_BIT then Inr SLANG_STAGE_HULL
      else if p_Stage = VK_SHADER_STAGE_TESSELLATION_EVALUATION_BIT then Inr SLANG_STAGE_DOMAIN
      else if p_Stage = VK_SHADER_STAGE_RAYGEN_BIT_KHR then Inr SLANG_STAGE_RAY_GENERATION
      else if p_Stage = VK_SHADER_STAGE_ANY_HIT_BIT_KHR then Inr SLANG_STAGE_ANY_HIT
      else if p_Stage = VK_SHADER_STAGE_CLOSEST_HIT_BIT_KHR then Inr SLANG_STAGE_CLOSEST_HIT
      else if p_Stage = VK_SHADER_STAGE_MISS_BIT_KHR then Inr SLANG_STAGE_MISS
      else if p_Stage = VK_SHADER_STAGE_INTERSECTION_BIT_KHR then Inr SLANG_STAGE_INTERSECTION
      else if p_Stage = VK_SHADER_STAGE_CALLABLE_BIT_KHR then Inr SLANG_STAGE_CALLABLE
      else if p_Stage = VK_SHADER_STAGE_MESH_BIT_EXT then Inr SLANG_STAGE_MESH
      else Inl (RuntimeError ''Unsupported shader stage''))"

fun getVkStageFromSlangStage :: "SlangStage \<Rightarrow> fault + uint32_t" where
  "getVkStageFromSlangStage SLANG_STAGE_VERTEX = Inr VK_SHADER_STAGE_VERTEX_BIT"
| "getVkStageFromSlangStage SLANG_STAGE_FRAGMENT = Inr VK_SHADER_STAGE_FRAGMENT_BIT"
| "getVkStageFromSlangStage SLANG_STAGE_COMPUTE = Inr VK_SHADER_STAGE_COMPUTE_BIT"
| "getVkStageFromSlangStage SLANG_STAGE_GEOMETRY = Inr VK_SHADER_STAGE_GEOMETRY_BIT"
| "getVkStageFromSlangStage SLANG_STAGE_HULL = Inr VK_SHADER_STAGE_TESSELLATION_CONTROL_BIT"
| "getVkStageFromSlangStage SLANG_STAGE_DOMAIN = Inr VK_SHADER_STAGE_TESSELLATION_EVALUATION_BIT"
| "getVkStageFromSlangStage SLANG_STAGE_RAY_GENERATION = Inr VK_SHADER_STAGE_RAYGEN_BIT_KHR"
| "getVkStageFromSlangStage SLANG_STAGE_ANY_HIT = Inr VK_SHADER_STAGE_ANY_HIT_BIT_KHR"
| "getVkStageFromSlangStage SLANG_STAGE_CLOSEST_HIT = Inr VK_SHADER_STAGE_CLOSEST_HIT_BIT_KHR"
| "getVkStageFromSlangStage SLANG_STAGE_MISS = Inr VK_SHADER_STAGE_MISS_BIT_KHR"
| "getVkStageFromSlangStage SLANG_STAGE_INTERSECTION = Inr VK_SHADER_STAGE_INTERSECTION_BIT_KHR"
| "getVkStageFromSlangStage SLANG_STAGE_CALLABLE = Inr VK_SHADER_STAGE_CALLABLE_BIT_KHR"
| "getVkStageFromSlangStage SLANG_STAGE_MESH = Inr VK_SHADER_STAGE_MESH_BIT_EXT"
| "getVkStageFromSlangStage _ = Inl (RuntimeError ''Unsupported shader stage'')"

text \<open>\<open>std::to_string\<close> of a non-negative and of a signed 32-bit value.\<close>

fun to_string_nat :: "nat \<Rightarrow> string" where
  "to_string_nat n =
     (if n < 10 then [char_of (48 + n)]
      else to_string_nat (n div 10) @ [char_of (48 + n mod 10)])"

definition to_string :: "uint32_t \<Rightarrow> string" where
  "to_string v =
     (if sint v < 0 then ''-'' @ to_string_nat (nat (- sint v)) else to_string_nat (nat (sint v)))"


section \<open>Files and byte encodings\<close>

definition file_content :: "disk \<Rightarrow> path \<Rightarrow> string" where
  "file_content d p = (case map_of d p of None \<Rightarrow> [] | Some c \<Rightarrow> c)"

text \<open>Opening an \<open>std::ofstream\<close> creates or empties the file; each \<open>write\<close> appends.\<close>

definition file_create :: "path \<Rightarrow> System \<Rightarrow> System" where
  "file_create p s =
     (let d = AList.update p [] (files s) in s\<lparr> files := d, files_log := files_log s @ [d] \<rparr>)"

definition file_write :: "path \<Rightarrow> string \<Rightarrow> System \<Rightarrow> System" where
  "file_write p bytes s =
     (let d = AList.update p (file_content (files s) p @ bytes) (files s)
      in s\<lparr> files := d, files_log := files_log s @ [d] \<rparr>)"

text \<open>\<open>std::filesystem::rename\<close>: one step; it throws when the source does not exist.\<close>

definition file_rename :: "path \<Rightarrow> path \<Rightarrow> System \<Rightarrow> unit outcome" where
  "file_rename p q s =
     (case map_of (files s) p of
        None \<Rightarrow> (Inl (RuntimeError ''filesystem error: rename''), s)
      | Some c \<Rightarrow>
          (let d = AList.update q c (AList.delete p (files s))
           in (Inr (), s\<lparr> files := d, files_log := files_log s @ [d] \<rparr>)))"

definition NUL :: char where "NUL = CHR 0x00"

definition u32_le :: "uint32_t \<Rightarrow> string" where
  "u32_le w = map (\<lambda>i. char_of (unat (drop_bit (8 * i) w))) [0, 1, 2, 3]"

definition u64_le :: "size_t \<Rightarrow> string" where
  "u64_le w = map (\<lambda>i. char_of (unat (drop_bit (8 * i) w))) [0, 1, 2, 3, 4, 5, 6, 7]"

definition le_u32 :: "string \<Rightarrow> uint32_t" where
  "le_u32 cs = foldr (\<lambda>c w. of_char c OR push_bit 8 w) cs 0"

definition le_u64 :: "string \<Rightarrow> size_t" where
  "le_u64 cs = foldr (\<lambda>c w. of_char c OR push_bit 8 w) cs 0"

text \<open>A \<open>char[n]\<close> member holding the given characters, zero-filled to its length.\<close>

definition char_array :: "nat \<Rightarrow> string \<Rightarrow> string" where
  "char_array n cs = take n cs @ replicate (n - length cs) NUL"

text \<open>What \<open>strcmp\<close> and \<open>strncpy_s\<close> read of a character array: up to the first zero.\<close>

definition c_str :: "string \<Rightarrow> string" where
  "c_str cs = takeWhile (\<lambda>c. c \<noteq> NUL) cs"

record CacheHeader =
  magic :: uint32_t
  version :: uint32_t
  slangVersion :: string
  spirvProfile :: string
  contentHash :: size_t

text \<open>The default member initialisers of \<open>CacheHeader\<close>.\<close>

definition CacheHeader_init :: CacheHeader where
  "CacheHeader_init =
     \<lparr> magic = CACHE_MAGIC, version = CACHE_VERSION, slangVersion = char_array 32 [],
       spirvProfile = char_array 16 [], contentHash = 0 \<rparr>"

text \<open>The 64 bytes of the struct (4 + 4 + 32 + 16 + 8, no padding), and back.\<close>

definition header_bytes :: "CacheHeader \<Rightarrow> string" where
  "header_bytes h =
     u32_le (magic h) @ u32_le (version h) @ char_array 32 (slangVersion h)
       @ char_array 16 (spirvProfile h) @ u64_le (contentHash h)"

definition header_of_bytes :: "string \<Rightarrow> CacheHeader" where
  "header_of_bytes bs =
     \<lparr> magic = le_u32 (take 4 bs), version = le_u32 (take 4 (drop 4 bs)),
       slangVersion = take 32 (drop 8 bs), spirvProfile = take 16 (drop 40 bs),
       contentHash = le_u64 (take 8 (drop 56 bs)) \<rparr>"

text \<open>
  An \<open>std::ifstream\<close>: the bytes not yet read, and whether the stream is still good.
  \<open>read(buf, n)\<close> on a stream that is not good reads nothing; otherwise it stores the bytes
  there are, up to \<open>n\<close>, at the start of the buffer, and the stream fails when there were
  fewer than \<open>n\<close>. The source never tests the stream after a read.
\<close>

type_synonym ifstream = "string \<times> bool"

definition stream_read :: "nat \<Rightarrow> string \<Rightarrow> ifstream \<Rightarrow> string \<times> ifstream" where
  "stream_read n buf f =
     (if \<not> snd f then (buf, f)
      else (let got = take n (fst f)
            in (got @ drop (length got) buf, (drop n (fst f), length got = n))))"

definition read_u32 :: "ifstream \<Rightarrow> uint32_t \<times> ifstream" where
  "read_u32 f = (let (b, f') = stream_read 4 (u32_le 0) f in (le_u32 b, f'))"

fun words_of_bytes :: "nat \<Rightarrow> string \<Rightarrow> uint32_t list" where
  "words_of_bytes 0 bs = []"
| "words_of_bytes (Suc n) bs = le_u32 (take 4 bs) # words_of_bytes n (drop 4 bs)"

section \<open>ShaderHash: files and folders\<close>

definition addFile :: "disk \<Rightarrow> path \<Rightarrow> ShaderHash \<Rightarrow> (unit, ShaderHash) res" where
  "addFile d p_File h =
     (case map_of d p_File of
        None \<Rightarrow> (Inl (RuntimeError (''Failed to open shader file for hashing: '' @ p_File)), h)
      | Some content \<Rightarrow> (Inr (), h\<lparr> m_Data := m_Data h @ [content] \<rparr>))"

fun addFolder_entries :: "Env \<Rightarrow> disk \<Rightarrow> (path \<times> bool) list \<Rightarrow> ShaderHash \<Rightarrow> (unit, ShaderHash) res" where
  "addFolder_entries B d [] h = (Inr (), h)"
| "addFolder_entries B d (l_Entry # es) h =
     (if snd l_Entry
         \<and> (extension B (fst l_Entry) = ''.slang'' \<or> extension B (fst l_Entry) = ''.slangh'')
      then and_then (addFile d (fst l_Entry) h) (\<lambda>_ h'. addFolder_entries B d es h')
      else addFolder_entries B d es h)"

definition addFolder :: "Env \<Rightarrow> disk \<Rightarrow> path \<Rightarrow> bool \<Rightarrow> ShaderHash \<Rightarrow> (unit, ShaderHash) res" where
  "addFolder B d p_Folder p_Recursive h =
     (case directory_entries B p_Folder p_Recursive of
        None \<Rightarrow> (Inl (RuntimeError (''Failed to open folder for hashing: '' @ p_Folder)), h)
      | Some es \<Rightarrow> addFolder_entries B d es h)"

section \<open>VulkanShader: configuration\<close>

definition enableCache :: "path \<Rightarrow> System \<Rightarrow> System" where
  "enableCache p_CacheFile s = s\<lparr> m_UseCache := True, m_HashFile := p_CacheFile \<rparr>"

definition setExpectedStages :: "uint32_t \<Rightarrow> string list \<Rightarrow> System \<Rightarrow> System" where
  "setExpectedStages p_Stages p_EntryPoints s =
     s\<lparr> m_ExpectedStages := p_Stages, m_ExpectedEntryPoints := p_EntryPoints \<rparr>"

definition with_hash :: "System \<Rightarrow> (unit, ShaderHash) res \<Rightarrow> unit outcome" where
  "with_hash s r = (fst r, s\<lparr> m_Hash := snd r \<rparr>)"

definition addModule :: "string \<Rightarrow> string \<Rightarrow> System \<Rightarrow> unit outcome" where
  "addModule p_Filename p_ModuleName s =
     (let s1 = s\<lparr> m_Modules := m_Modules s
                     @ [\<lparr> md_data = p_Filename, md_type = FILE, md_name = p_ModuleName \<rparr>] \<rparr>
      in if m_UseCache s1
         then and_then (with_hash s1 (addFile (files s1) p_Filename (m_Hash s1)))
                (\<lambda>_ s2. (Inr (), s2\<lparr> m_Hash := addMacro ''name'' p_ModuleName
                                                  (addMacro ''type'' ''file'' (m_Hash s2)) \<rparr>))
         else (Inr (), s1))"

definition addModuleString :: "string \<Rightarrow> string \<Rightarrow> System \<Rightarrow> unit outcome" where
  "addModuleString p_Source p_ModuleName s =
     (let s1 = s\<lparr> m_Modules := m_Modules s
                     @ [\<lparr> md_data = p_Source, md_type = STRING, md_name = p_ModuleName \<rparr>] \<rparr>
      in if m_UseCache s1
         then (Inr (), s1\<lparr> m_Hash := addMacro ''name'' p_ModuleName
                                        (addMacro ''type'' ''str''
                                           (addString p_Source (m_Hash s1))) \<rparr>)
         else (Inr (), s1))"

definition addSearchPath :: "string \<Rightarrow> System \<Rightarrow> System" where
  "addSearchPath p_Path s = s\<lparr> m_SearchPaths := insert p_Path (m_SearchPaths s) \<rparr>"

definition addCacheDependency :: "path \<Rightarrow> System \<Rightarrow> unit outcome" where
  "addCacheDependency p_File s =
     (if m_UseCache s then with_hash s (addFile (files s) p_File (m_Hash s)) else (Inr (), s))"

definition addCacheDependencyFolder :: "Env \<Rightarrow> path \<Rightarrow> bool \<Rightarrow> System \<Rightarrow> unit outcome" where
  "addCacheDependencyFolder B p_Folder p_Recursive s =
     (if m_UseCache s then with_hash s (addFolder B (files s) p_Folder p_Recursive (m_Hash s))
      else (Inr (), s))"

text \<open>The calls that configure a shader before it is compiled, and a run of them.\<close>

datatype call =
    EnableCache path
  | SetExpectedStages uint32_t "string list"
  | AddModule string string
  | AddModuleString string string
  | AddSearchPath string
  | AddCacheDependency path
  | AddCacheDependencyFolder path bool

fun do_call :: "Env \<Rightarrow> call \<Rightarrow> System \<Rightarrow> unit outcome" where
  "do_call B (EnableCache p) s = (Inr (), enableCache p s)"
| "do_call B (SetExpectedStages st eps) s = (Inr (), setExpectedStages st eps s)"
| "do_call B (AddModule f n) s = addModule f n s"
| "do_call B (AddModuleString src n) s = addModuleString src n s"
| "do_call B (AddSearchPath p) s = (Inr (), addSearchPath p s)"
| "do_call B (AddCacheDependency p) s = addCacheDependency p s"
| "do_call B (AddCacheDependencyFolder p r) s = addCacheDependencyFolder B p r s"

fun do_calls :: "Env \<Rightarrow> call list \<Rightarrow> System \<Rightarrow> unit outcome" where
  "do_calls B [] s = (Inr (), s)"
| "do_calls B (c # cs) s = and_then (do_call B c s) (\<lambda>_ s'. do_calls B cs s')"

section \<open>The cache key, at load and at save\<close>

text \<open>
  \<open>compile\<close>, lines 179 to 181:
  \<^verbatim>\<open>size_t l_HashValue = m_Hash.getHash();
  hashCombine(l_HashValue, static_cast<size_t>(m_Optimize));
  hashCombine(l_HashValue, std::string(SPIRV_PROFILE));\<close>
\<close>

definition compile_key :: "std_hash \<Rightarrow> System \<Rightarrow> size_t \<times> System" where
  "compile_key H s =
     (let (l_HashValue, h) = ShaderHash_getHash H (m_Hash s);
          l_HashValue = hashCombine H l_HashValue (HSize (if m_Optimize s then 1 else 0));
          l_HashValue = hashCombine H l_HashValue (HStr SPIRV_PROFILE)
      in (l_HashValue, s\<lparr> m_Hash := h \<rparr>))"

text \<open>\<open>saveCodeCache\<close>, lines 358 to 360: the same three statements, written a second time.\<close>

definition save_key :: "std_hash \<Rightarrow> System \<Rightarrow> size_t \<times> System" where
  "save_key H s =
     (let (l_HashValue, h) = ShaderHash_getHash H (m_Hash s);
          l_HashValue = hashCombine H l_HashValue (HSize (if m_Optimize s then 1 else 0));
          l_HashValue = hashCombine H l_HashValue (HStr SPIRV_PROFILE)
      in (l_HashValue, s\<lparr> m_Hash := h \<rparr>))"


section \<open>Cache load\<close>

text \<open>
  One iteration of the record loop of \<open>tryLoadCachedCode\<close>, lines 271 to 283. The code
  buffer has \<open>l_CodeSize / 4\<close> words, and \<open>read\<close> is asked for \<open>l_CodeSize\<close> bytes: when more
  bytes arrive than the buffer holds, the write runs past it (\<open>OutOfBounds\<close>).
\<close>

definition loadRecord :: "ifstream \<Rightarrow> fault + (CachedCodes \<times> ifstream)" where
  "loadRecord f =
     (let (l_Stage, f1) = read_u32 f;
          (l_NameLength, f2) = read_u32 f1;
          (l_Name, f3) = stream_read (unat l_NameLength) (replicate (unat l_NameLength) NUL) f2;
          (l_CodeSize, f4) = read_u32 f3;
          l_Words = unat l_CodeSize div 4;
          arriving = (if snd f4 then min (unat l_CodeSize) (length (fst f4)) else 0)
      in if 4 * l_Words < arriving then Inl OutOfBounds
         else (let (l_Code, f5) = stream_read (unat l_CodeSize) (replicate (4 * l_Words) NUL) f4
               in Inr (\<lparr> cc_stage = l_Stage, cc_name = l_Name,
                         cc_spirv = words_of_bytes l_Words l_Code \<rparr>, f5)))"

fun loadRecords :: "nat \<Rightarrow> ifstream \<Rightarrow> fault + CachedCodes list" where
  "loadRecords 0 f = Inr []"
| "loadRecords (Suc n) f =
     (case loadRecord f of
        Inl e \<Rightarrow> Inl e
      | Inr (c, f') \<Rightarrow> (case loadRecords n f' of Inl e \<Rightarrow> Inl e | Inr cs \<Rightarrow> Inr (c # cs)))"

text \<open>Lines 286 to 309: the first expected stage bit with no cached record, if any.\<close>

definition missingStage :: "uint32_t \<Rightarrow> CachedCodes list \<Rightarrow> nat option" where
  "missingStage expected codes =
     (if expected \<noteq> 0
      then find (\<lambda>l_Stage. expected AND push_bit l_Stage 1 \<noteq> 0
                           \<and> push_bit l_Stage 1 \<notin> set (map cc_stage codes)) [0..<32]
      else None)"

text \<open>Lines 311 to 330: the first expected entry point with no cached record, if any.\<close>

definition missingEntryPoint :: "string list \<Rightarrow> CachedCodes list \<Rightarrow> string option" where
  "missingEntryPoint expected codes = find (\<lambda>l_ExpectedEntry. l_ExpectedEntry \<notin> set (map cc_name codes)) expected"

text \<open>Lines 240 and 241: the header block, read over a default-initialised \<open>CacheHeader\<close>.\<close>

definition readHeader :: "string \<Rightarrow> CacheHeader \<times> ifstream" where
  "readHeader content =
     (let (hb, f1) = stream_read 64 (header_bytes CacheHeader_init) (content, True)
      in (header_of_bytes hb, f1))"

text \<open>Lines 266 to 284: the record count, then that many records.\<close>

definition readRecords :: "ifstream \<Rightarrow> fault + CachedCodes list" where
  "readRecords f1 = (let (l_StageCount, f2) = read_u32 f1 in loadRecords (unat l_StageCount) f2)"

text \<open>
  \<open>tryLoadCachedCode\<close>. The records read are appended to the member \<open>m_CachedCodes\<close>, which
  is not cleared first, and stay there when the function returns false.
\<close>

definition tryLoadCachedCode :: "size_t \<Rightarrow> System \<Rightarrow> bool outcome" where
  "tryLoadCachedCode p_HashValue s =
     (case map_of (files s) (m_HashFile s) of
        None \<Rightarrow> (Inr False, s)
      | Some content \<Rightarrow>
          (let (l_Header, f1) = readHeader content
           in if magic l_Header \<noteq> CACHE_MAGIC then (Inr False, s)
              else if version l_Header \<noteq> CACHE_VERSION then (Inr False, s)
              else if c_str (spirvProfile l_Header) \<noteq> SPIRV_PROFILE then (Inr False, s)
              else if contentHash l_Header \<noteq> p_HashValue then (Inr False, s)
              else (case readRecords f1 of
                      Inl e \<Rightarrow> (Inl e, s)
                    | Inr cs \<Rightarrow>
                        (let s1 = s\<lparr> m_CachedCodes := m_CachedCodes s @ cs \<rparr>
                         in if missingStage (m_ExpectedStages s1) (m_CachedCodes s1) \<noteq> None
                            then (Inr False, s1)
                            else if missingEntryPoint (m_ExpectedEntryPoints s1) (m_CachedCodes s1) \<noteq> None
                            then (Inr False, s1)
                            else (Inr True, s1)))))"

section \<open>Live compilation\<close>

definition buildSession :: "Env \<Rightarrow> nat \<Rightarrow> bool \<Rightarrow> System \<Rightarrow> bool \<times> System" where
  "buildSession B p_CompilationThread p_Optimize s =
     (if p_CompilationThread \<notin> s_SlangSessions s \<and> \<not> createGlobalSession B p_CompilationThread
      then (False, set_failed ''Failed to create Slang global session'' s)
      else (let s1 = s\<lparr> s_SlangSessions := insert p_CompilationThread (s_SlangSessions s) \<rparr>;
                l_SessionDesc = \<lparr> ses_thread = p_CompilationThread, ses_optimize = p_Optimize,
                                  ses_searchPaths = m_SearchPaths s1, ses_macros = m_Macros s1 \<rparr>
            in if \<not> createSession B l_SessionDesc
               then (False, set_failed ''Failed to create Slang session'' s1)
               else (True, s1\<lparr> m_SlangSession := Some l_SessionDesc \<rparr>)))"

text \<open>The loop over the entry points a module defines (lines 444 to 454).\<close>

fun registerEntryPoints :: "nat \<Rightarrow> EntryPoint option list \<Rightarrow> System \<Rightarrow> System" where
  "registerEntryPoints i [] s = s"
| "registerEntryPoints i (None # eps) s =
     set_failed (''Failed to get entry point by index: '' @ to_string_nat i) s"
| "registerEntryPoints i (Some l_EntryPoint # eps) s =
     registerEntryPoints (Suc i) eps
       (s\<lparr> m_SlangComponents := m_SlangComponents s @ [EntryPointComponent l_EntryPoint] \<rparr>)"

text \<open>\<open>loadModuleString\<close> has no test of \<open>m_Result.status\<close> at its start.\<close>

definition loadModuleString :: "Env \<Rightarrow> string \<Rightarrow> string \<Rightarrow> System \<Rightarrow> unit outcome" where
  "loadModuleString B p_Source p_ModuleName s =
     (case m_SlangSession s of
        None \<Rightarrow> (Inl NullDeref, s)
      | Some l_Session \<Rightarrow>
          (case loadModuleFromSourceString B l_Session p_ModuleName p_Source of
             None \<Rightarrow> (Inr (), set_failed (''Failed to load shader module: '' @ p_ModuleName) s)
           | Some eps \<Rightarrow>
               (Inr (), registerEntryPoints 0 eps
                  (s\<lparr> m_SlangComponents := m_SlangComponents s
                         @ [ModuleComponent p_ModuleName eps] \<rparr>))))"

definition loadModule :: "Env \<Rightarrow> string \<Rightarrow> string \<Rightarrow> System \<Rightarrow> unit outcome" where
  "loadModule B p_Filename p_ModuleName s =
     (if status (m_Result s) = FAILED then (Inr (), s)
      else (case map_of (files s) p_Filename of
              None \<Rightarrow> (Inr (), set_failed (''Failed to open shader file: '' @ p_Filename) s)
            | Some content \<Rightarrow>
                (let l_ParentPath = parent_path B p_Filename;
                     s1 = (if l_ParentPath \<noteq> [] then addSearchPath l_ParentPath s else s)
                 in loadModuleString B content p_ModuleName s1)))"

text \<open>The loop of \<open>compile\<close> over \<open>m_Modules\<close> (lines 198 to 208).\<close>

fun loadModules :: "Env \<Rightarrow> ModuleData list \<Rightarrow> System \<Rightarrow> unit outcome" where
  "loadModules B [] s = (Inr (), s)"
| "loadModules B (l_Module # ms) s =
     and_then
       (if md_type l_Module = FILE then loadModule B (md_data l_Module) (md_name l_Module) s
        else loadModuleString B (md_data l_Module) (md_name l_Module) s)
       (\<lambda>_ s'. loadModules B ms s')"

text \<open>
  \<open>linkAndFinalize\<close>: the branch taken when linking fails does not return, so the two
  statements after it run on both paths.
\<close>

definition linkAndFinalize :: "Env \<Rightarrow> System \<Rightarrow> unit outcome" where
  "linkAndFinalize B s =
     (if status (m_Result s) = FAILED then (Inr (), s)
      else (case m_SlangSession s of
              None \<Rightarrow> (Inl NullDeref, s)
            | Some l_Session \<Rightarrow>
                (let s1 = (case createCompositeComponentType B l_Session (m_SlangComponents s) of
                             None \<Rightarrow> set_failed ''Failed to link shader modules'' s
                           | Some l_Program \<Rightarrow> s\<lparr> m_SlangProgram := Some l_Program \<rparr>)
                 in (Inr (), s1\<lparr> m_SlangComponents := [],
                                 m_Result := (m_Result s1)\<lparr> status := COMPILED \<rparr> \<rparr>))))"

section \<open>Code extraction, cache save and compile\<close>

text \<open>
  \<open>compile\<close> calls \<open>saveCodeCache\<close>, which calls \<open>getSpirvForStage\<close>, which calls
  \<open>compile(true)\<close> when the status is \<open>CACHED\<close>. The three are first written with that inner
  call as the parameter \<open>C\<close>; the recursion is closed below.
\<close>

type_synonym compile_fn = "bool \<Rightarrow> System \<Rightarrow> unit outcome"

definition find_index_of :: "('a \<Rightarrow> bool) \<Rightarrow> 'a list \<Rightarrow> nat option" where
  "find_index_of P xs = (if list_ex P xs then Some (length (takeWhile (\<lambda>x. \<not> P x) xs)) else None)"

text \<open>Lines 499 to 535: what \<open>getSpirvForStage\<close> does once cache and recompilation are behind.\<close>

definition extractForStage :: "uint32_t \<Rightarrow> System \<Rightarrow> uint32_t list outcome" where
  "extractForStage p_Stage s =
     (case m_SlangProgram s of
        None \<Rightarrow> (Inl NullDeref, s)
      | Some l_Layout \<Rightarrow>
          (case getSlangStageFromVkStage p_Stage of
             Inl e \<Rightarrow> (Inl e, s)
           | Inr l_SlangStage \<Rightarrow>
               (case find_index_of (\<lambda>l_EntryPoint. ep_stage (fst l_EntryPoint) = l_SlangStage) l_Layout of
                  None \<Rightarrow>
                    (Inr [], set_failed (''Failed to find entry point for shader stage: ''
                                           @ to_string p_Stage) s)
                | Some l_EntryPointIndex \<Rightarrow>
                    (case snd (l_Layout ! l_EntryPointIndex) of
                       None \<Rightarrow>
                         (Inr [], set_failed (''Failed to get SPIR-V for shader stage: ''
                                                @ to_string p_Stage) s)
                     | Some l_SPIRV \<Rightarrow> (Inr l_SPIRV, s)))))"

definition getSpirvForStage_open ::
  "compile_fn \<Rightarrow> uint32_t \<Rightarrow> System \<Rightarrow> uint32_t list outcome" where
  "getSpirvForStage_open C p_Stage s =
     (if status (m_Result s) \<noteq> COMPILED \<and> status (m_Result s) \<noteq> CACHED
      then (Inr [], set_failed ''Shader compilation not finished'' s)
      else (case find (\<lambda>l_CachedCode. cc_stage l_CachedCode = p_Stage) (m_CachedCodes s) of
              Some l_CachedCode \<Rightarrow> (Inr (cc_spirv l_CachedCode), s)
            | None \<Rightarrow>
                and_then (if status (m_Result s) = CACHED then C True s else (Inr (), s))
                  (\<lambda>_ s'. extractForStage p_Stage s')))"



text \<open>
  The loop of \<open>saveCodeCache\<close> over the layout's entry points (lines 366 to 381); the result
  is false when the loop left the function through its \<open>return\<close>.
\<close>

fun saveEntryPoints :: "compile_fn \<Rightarrow> Program \<Rightarrow> System \<Rightarrow> bool outcome" where
  "saveEntryPoints C [] s = (Inr True, s)"
| "saveEntryPoints C (l_EntryPoint # es) s =
     (case getVkStageFromSlangStage (ep_stage (fst l_EntryPoint)) of
        Inl e \<Rightarrow> (Inl e, s)
      | Inr l_Stage \<Rightarrow>
          and_then (getSpirvForStage_open C l_Stage s)
            (\<lambda>l_Spirv s1.
               if status (m_Result s1) = FAILED then (Inr False, s1)
               else saveEntryPoints C es
                      (s1\<lparr> m_CachedCodes := m_CachedCodes s1
                              @ [\<lparr> cc_stage = l_Stage, cc_name = ep_name (fst l_EntryPoint),
                                   cc_spirv = l_Spirv \<rparr>] \<rparr>)))"

text \<open>The five writes for each cached record (lines 385 to 395).\<close>

fun writeRecords :: "path \<Rightarrow> CachedCodes list \<Rightarrow> System \<Rightarrow> System" where
  "writeRecords p [] s = s"
| "writeRecords p (l_CachedCode # cs) s =
     (let s1 = file_write p (u32_le (cc_stage l_CachedCode)) s;
          l_NameLength = (of_nat (length (cc_name l_CachedCode)) :: uint32_t);
          s2 = file_write p (u32_le l_NameLength) s1;
          s3 = file_write p (take (unat l_NameLength) (cc_name l_CachedCode)) s2;
          l_CodeSize = (of_nat (length (cc_spirv l_CachedCode) * 4) :: uint32_t);
          s4 = file_write p (u32_le l_CodeSize) s3;
          s5 = file_write p (take (unat l_CodeSize) (concat (map u32_le (cc_spirv l_CachedCode)))) s4
      in writeRecords p cs s5)"

text \<open>
  The file layout stated in the comment of \<open>tryLoadCachedCode\<close> (lines 219 to 232): the
  bytes of one record, and of a whole cache file.
\<close>

definition record_bytes :: "CachedCodes \<Rightarrow> string" where
  "record_bytes c =
     (let l_NameLength = (of_nat (length (cc_name c)) :: uint32_t);
          l_CodeSize = (of_nat (length (cc_spirv c) * 4) :: uint32_t)
      in u32_le (cc_stage c) @ u32_le l_NameLength @ take (unat l_NameLength) (cc_name c)
           @ u32_le l_CodeSize @ take (unat l_CodeSize) (concat (map u32_le (cc_spirv c))))"

definition cache_file_bytes :: "CacheHeader \<Rightarrow> CachedCodes list \<Rightarrow> string" where
  "cache_file_bytes h cs =
     header_bytes h @ u32_le (of_nat (length cs)) @ concat (map record_bytes cs)"

text \<open>The header \<open>saveCodeCache\<close> builds (lines 353 to 361).\<close>

definition saved_header :: "std_hash \<Rightarrow> Env \<Rightarrow> System \<Rightarrow> CacheHeader" where
  "saved_header H B s =
     CacheHeader_init
       \<lparr> slangVersion := char_array 32 (take 31 (c_str (getBuildTagString B (m_CompilationThread s)))),
         spirvProfile := char_array 16 (take 15 SPIRV_PROFILE),
         contentHash := fst (save_key H s) \<rparr>"

text \<open>
  \<open>saveCodeCache\<close>. Directories are not part of the model, so \<open>create_directories\<close> has no
  counterpart; the writes to the stream are taken to succeed (the source never tests them).
\<close>

definition saveCodeCache_open :: "compile_fn \<Rightarrow> std_hash \<Rightarrow> Env \<Rightarrow> System \<Rightarrow> unit outcome" where
  "saveCodeCache_open C H B s =
     (if status (m_Result s) \<noteq> COMPILED then (Inr (), s)
      else (let l_TempFile = m_HashFile s @ ''.tmp''
            in if \<not> openForWriting B l_TempFile then (Inr (), s)
               else (let s1 = file_create l_TempFile s
                     in if m_CompilationThread s1 \<notin> s_SlangSessions s1 then (Inl NullDeref, s1)
                        else (let l_Header = saved_header H B s1;
                                  s2 = snd (save_key H s1);
                                  s3 = file_write l_TempFile (header_bytes l_Header) s2
                              in if status (m_Result s3) \<noteq> COMPILED
                                 then (Inl (RuntimeError ''Could not obtain shader layout, compilation not finished''), s3)
                                 else (case m_SlangProgram s3 of
                                         None \<Rightarrow> (Inl NullDeref, s3)
                                       | Some l_Layout \<Rightarrow>
                                           and_then (saveEntryPoints C l_Layout s3)
                                             (\<lambda>go s4.
                                                if \<not> go then (Inr (), s4)
                                                else (let l_StageCount = (of_nat (length (m_CachedCodes s4)) :: uint32_t);
                                                          s5 = file_write l_TempFile (u32_le l_StageCount) s4;
                                                          s6 = writeRecords l_TempFile (m_CachedCodes s5) s5
                                                      in file_rename l_TempFile (m_HashFile s6) s6)))))))"

text \<open>Lines 196 to 209 of \<open>compile\<close>: session, module loop, link.\<close>

definition compile_front :: "Env \<Rightarrow> System \<Rightarrow> unit outcome" where
  "compile_front B s =
     (let s1 = snd (buildSession B (m_CompilationThread s) (m_Optimize s) s)
      in and_then (loadModules B (m_Modules s1) s1) (\<lambda>_ s2. linkAndFinalize B s2))"

text \<open>Lines 196 to 214: the same, then the save when the cache is enabled.\<close>

definition compile_live :: "compile_fn \<Rightarrow> std_hash \<Rightarrow> Env \<Rightarrow> System \<Rightarrow> unit outcome" where
  "compile_live C H B s =
     and_then (compile_front B s)
       (\<lambda>_ s3. if m_UseCache s3 then saveCodeCache_open C H B s3 else (Inr (), s3))"

definition compile_open :: "compile_fn \<Rightarrow> std_hash \<Rightarrow> Env \<Rightarrow> bool \<Rightarrow> System \<Rightarrow> unit outcome" where
  "compile_open C H B p_ForceCompile s =
     (if m_UseCache s
      then (let (l_HashValue, s1) = compile_key H s
            in and_then (tryLoadCachedCode l_HashValue s1)
                 (\<lambda>hit s2.
                    if hit
                    then (let s3 = s2\<lparr> m_Result := (m_Result s2)\<lparr> status := CACHED \<rparr> \<rparr>
                          in if \<not> p_ForceCompile then (Inr (), s3) else compile_live C H B s3)
                    else compile_live C H B s2))
      else compile_live C H B s)"

text \<open>
  Closing the recursion. \<open>saveCodeCache\<close> calls \<open>getSpirvForStage\<close> only while the status is
  \<open>COMPILED\<close>, so the inner \<open>compile(true)\<close> is never reached from \<open>compile\<close> and anything
  can stand for it; lemma \<open>compile_unfold\<close> shows that \<open>compile\<close> satisfies the recursive
  equation of the source.
\<close>

definition compile :: "std_hash \<Rightarrow> Env \<Rightarrow> bool \<Rightarrow> System \<Rightarrow> unit outcome" where
  "compile H B = compile_open (\<lambda>_ s. (Inr (), s)) H B"





section \<open>VulkanPipelineBuilder: data (vulkan\_pipeline.hpp)\<close>

text \<open>
  A counted array of a Vulkan structure: the count member and the elements the pointer
  member points at (none for a null pointer). The hash functions index the pointer up to
  the count; an index past the elements is a read out of bounds.
\<close>

type_synonym 'a counted = "uint32_t \<times> 'a list"

definition elems :: "'a counted \<Rightarrow> fault + 'a list" where
  "elems a =
     (if unat (fst a) \<le> length (snd a) then Inr (take (unat (fst a)) (snd a))
      else Inl OutOfBounds)"

text \<open>
  The leaf structures of vulkan\_core.h are tuples of their members, in declaration order:
  \<open>VkVertexInputBindingDescription\<close> (binding, stride, inputRate),
  \<open>VkVertexInputAttributeDescription\<close> (location, binding, format, offset),
  \<open>VkViewport\<close> (x, y, width, height, minDepth, maxDepth),
  \<open>VkRect2D\<close> ((x, y), (width, height)),
  \<open>VkStencilOpState\<close> (failOp, passOp, depthFailOp, compareOp, compareMask, writeMask, reference),
  \<open>VkPipelineColorBlendAttachmentState\<close> (blendEnable, srcColorBlendFactor,
  dstColorBlendFactor, colorBlendOp, srcAlphaBlendFactor, dstAlphaBlendFactor, alphaBlendOp,
  colorWriteMask).
\<close>

type_synonym VkVertexInputBindingDescription = "uint32_t \<times> uint32_t \<times> uint32_t"
type_synonym VkVertexInputAttributeDescription = "uint32_t \<times> uint32_t \<times> uint32_t \<times> uint32_t"
type_synonym VkViewport = "float32 \<times> float32 \<times> float32 \<times> float32 \<times> float32 \<times> float32"
type_synonym VkRect2D = "(uint32_t \<times> uint32_t) \<times> (uint32_t \<times> uint32_t)"
type_synonym VkStencilOpState =
  "uint32_t \<times> uint32_t \<times> uint32_t \<times> uint32_t \<times> uint32_t \<times> uint32_t \<times> uint32_t"
type_synonym VkPipelineColorBlendAttachmentState =
  "uint32_t \<times> uint32_t \<times> uint32_t \<times> uint32_t \<times> uint32_t \<times> uint32_t \<times> uint32_t \<times> uint32_t"

text \<open>
  A record of an extension chain, by its \<open>sType\<close>. A structure type the hash functions
  name carries the members they read, in the order they read them; every other structure
  is \<open>OtherStructure\<close> with its \<open>sType\<close> and its bytes. A chain is the list of its
  records (\<open>pNext\<close> null is the empty list).
\<close>

datatype ext =
    VkPipelineVertexInputDivisorStateCreateInfoEXT "(uint32_t \<times> uint32_t) counted"
  | VkPipelineTessellationDomainOriginStateCreateInfo uint32_t
  | VkPipelineViewportCoarseSampleOrderStateCreateInfoNV uint32_t
      "(uint32_t \<times> uint32_t \<times> (uint32_t \<times> uint32_t \<times> uint32_t) counted) counted"
  | VkPipelineViewportDepthClampControlCreateInfoEXT uint32_t "(float32 \<times> float32) option"
  | VkPipelineViewportDepthClipControlCreateInfoEXT uint32_t
  | VkPipelineViewportExclusiveScissorStateCreateInfoNV "VkRect2D counted"
  | VkPipelineViewportShadingRateImageStateCreateInfoNV uint32_t "(uint32_t counted) counted"
  | VkPipelineViewportSwizzleStateCreateInfoNV uint32_t
      "(uint32_t \<times> uint32_t \<times> uint32_t \<times> uint32_t) counted"
  | VkPipelineViewportWScalingStateCreateInfoNV uint32_t "(float32 \<times> float32) counted"
  | VkDepthBiasRepresentationInfoEXT uint32_t
  | VkPipelineRasterizationConservativeStateCreateInfoEXT uint32_t float32
  | VkPipelineRasterizationDepthClipStateCreateInfoEXT uint32_t uint32_t
  | VkPipelineRasterizationLineStateCreateInfo uint32_t uint32_t uint32_t uint16_t
  | VkPipelineRasterizationProvokingVertexStateCreateInfoEXT uint32_t
  | VkPipelineRasterizationStateRasterizationOrderAMD uint32_t
  | VkPipelineRasterizationStateStreamCreateInfoEXT uint32_t uint32_t
  | VkPipelineCoverageModulationStateCreateInfoNV uint32_t uint32_t uint32_t "float32 counted"
  | VkPipelineCoverageReductionStateCreateInfoNV uint32_t uint32_t
  | VkPipelineCoverageToColorStateCreateInfoNV uint32_t uint32_t uint32_t
  | VkPipelineSampleLocationsStateCreateInfoEXT uint32_t uint32_t uint32_t uint32_t
      "(float32 \<times> float32) counted"
  | VkPipelineColorWriteCreateInfoEXT "uint32_t counted"
  | VkPipelineColorBlendAdvancedStateCreateInfoEXT uint32_t uint32_t uint32_t
  | OtherStructure uint32_t "byte list"

text \<open>The state structures, with the members the hash functions read.\<close>

record VkPipelineVertexInputStateCreateInfo =
  vi_pNext :: "ext list"
  vi_flags :: uint32_t
  vi_bindings :: "VkVertexInputBindingDescription counted"
  vi_attributes :: "VkVertexInputAttributeDescription counted"

record VkPipelineInputAssemblyStateCreateInfo =
  ia_pNext :: "ext list"
  ia_flags :: uint32_t
  ia_topology :: uint32_t
  ia_primitiveRestartEnable :: uint32_t

record VkPipelineTessellationStateCreateInfo =
  ts_pNext :: "ext list"
  ts_flags :: uint32_t
  ts_patchControlPoints :: uint32_t

text \<open>\<open>viewportCount\<close> with \<open>pViewports\<close>, and \<open>scissorCount\<close> with \<open>pScissors\<close>.\<close>

record VkPipelineViewportStateCreateInfo =
  vp_pNext :: "ext list"
  vp_flags :: uint32_t
  vp_viewports :: "VkViewport counted"
  vp_scissors :: "VkRect2D counted"

record VkPipelineRasterizationStateCreateInfo =
  rs_pNext :: "ext list"
  rs_flags :: uint32_t
  rs_depthClampEnable :: uint32_t
  rs_rasterizerDiscardEnable :: uint32_t
  rs_polygonMode :: uint32_t
  rs_cullMode :: uint32_t
  rs_frontFace :: uint32_t
  rs_depthBiasEnable :: uint32_t
  rs_lineWidth :: float32

record VkPipelineMultisampleStateCreateInfo =
  ms_pNext :: "ext list"
  ms_flags :: uint32_t
  ms_rasterizationSamples :: uint32_t
  ms_sampleShadingEnable :: uint32_t
  ms_minSampleShading :: float32
  ms_alphaToCoverageEnable :: uint32_t
  ms_alphaToOneEnable :: uint32_t

record VkPipelineDepthStencilStateCreateInfo =
  ds_pNext :: "ext list"
  ds_flags :: uint32_t
  ds_depthTestEnable :: uint32_t
  ds_depthWriteEnable :: uint32_t
  ds_depthCompareOp :: uint32_t
  ds_depthBoundsTestEnable :: uint32_t
  ds_stencilTestEnable :: uint32_t
  ds_front :: VkStencilOpState
  ds_back :: VkStencilOpState
  ds_minDepthBounds :: float32
  ds_maxDepthBounds :: float32

record VkPipelineColorBlendStateCreateInfo =
  cb_pNext :: "ext list"
  cb_flags :: uint32_t
  cb_logicOpEnable :: uint32_t
  cb_logicOp :: uint32_t
  cb_attachments :: "VkPipelineColorBlendAttachmentState counted"
  cb_blendConstants :: "float32 \<times> float32 \<times> float32 \<times> float32"

record VkPipelineDynamicStateCreateInfo =
  dy_pNext :: "ext list"
  dy_flags :: uint32_t
  dy_dynamicStates :: "uint32_t counted"

text \<open>
  The builder. Its vectors (\<open>m_VertexInputBindings\<close>, \<open>m_Viewports\<close>, ...) are what the
  pointer members of the state structures point at after the builder's own setters; the
  hash functions read through the state structures only.
\<close>

record VulkanPipelineBuilder =
  m_VertexInputState :: VkPipelineVertexInputStateCreateInfo
  m_InputAssemblyState :: VkPipelineInputAssemblyStateCreateInfo
  m_TessellationState :: VkPipelineTessellationStateCreateInfo
  m_ViewportState :: VkPipelineViewportStateCreateInfo
  m_RasterizationState :: VkPipelineRasterizationStateCreateInfo
  m_MultisampleState :: VkPipelineMultisampleStateCreateInfo
  m_DepthStencilState :: VkPipelineDepthStencilStateCreateInfo
  m_ColorBlendState :: VkPipelineColorBlendStateCreateInfo
  m_DynamicState :: VkPipelineDynamicStateCreateInfo
  m_TesellationStateEnabled :: bool
  m_ShaderStages :: "(nat \<times> string) list"
  m_Device :: nat


section \<open>VulkanPipelineBuilder: construction and setters\<close>

definition VK_FALSE :: uint32_t where "VK_FALSE = 0"
definition VK_TRUE :: uint32_t where "VK_TRUE = 1"
definition VK_PRIMITIVE_TOPOLOGY_TRIANGLE_LIST :: uint32_t where "VK_PRIMITIVE_TOPOLOGY_TRIANGLE_LIST = 3"
definition VK_POLYGON_MODE_FILL :: uint32_t where "VK_POLYGON_MODE_FILL = 0"
definition VK_CULL_MODE_BACK_BIT :: uint32_t where "VK_CULL_MODE_BACK_BIT = 2"
definition VK_FRONT_FACE_COUNTER_CLOCKWISE :: uint32_t where "VK_FRONT_FACE_COUNTER_CLOCKWISE = 0"
definition VK_SAMPLE_COUNT_1_BIT :: uint32_t where "VK_SAMPLE_COUNT_1_BIT = 1"
definition VK_COMPARE_OP_LESS :: uint32_t where "VK_COMPARE_OP_LESS = 1"
definition VK_LOGIC_OP_COPY :: uint32_t where "VK_LOGIC_OP_COPY = 3"

text \<open>The bit patterns of \<open>0.0f\<close> and \<open>1.0f\<close>.\<close>

definition float_0 :: float32 where "float_0 = 0"
definition float_1 :: float32 where "float_1 = 0x3f800000"

text \<open>
  The constructor: every structure is value-initialised (\<open>{}\<close>), then the members the
  constructor names are assigned. \<open>viewportCount\<close> and \<open>scissorCount\<close> become 1 while
  \<open>pViewports\<close> and \<open>pScissors\<close> stay null.
\<close>

definition VulkanPipelineBuilder_init :: "nat \<Rightarrow> VulkanPipelineBuilder" where
  "VulkanPipelineBuilder_init p_Device =
     \<lparr> m_VertexInputState =
         \<lparr> vi_pNext = [], vi_flags = 0, vi_bindings = (0, []), vi_attributes = (0, []) \<rparr>,
       m_InputAssemblyState =
         \<lparr> ia_pNext = [], ia_flags = 0, ia_topology = VK_PRIMITIVE_TOPOLOGY_TRIANGLE_LIST,
           ia_primitiveRestartEnable = VK_FALSE \<rparr>,
       m_TessellationState = \<lparr> ts_pNext = [], ts_flags = 0, ts_patchControlPoints = 1 \<rparr>,
       m_ViewportState =
         \<lparr> vp_pNext = [], vp_flags = 0, vp_viewports = (1, []), vp_scissors = (1, []) \<rparr>,
       m_RasterizationState =
         \<lparr> rs_pNext = [], rs_flags = 0, rs_depthClampEnable = VK_FALSE,
           rs_rasterizerDiscardEnable = VK_FALSE, rs_polygonMode = VK_POLYGON_MODE_FILL,
           rs_cullMode = VK_CULL_MODE_BACK_BIT, rs_frontFace = VK_FRONT_FACE_COUNTER_CLOCKWISE,
           rs_depthBiasEnable = VK_FALSE, rs_lineWidth = float_1 \<rparr>,
       m_MultisampleState =
         \<lparr> ms_pNext = [], ms_flags = 0, ms_rasterizationSamples = VK_SAMPLE_COUNT_1_BIT,
           ms_sampleShadingEnable = VK_FALSE, ms_minSampleShading = float_0,
           ms_alphaToCoverageEnable = 0, ms_alphaToOneEnable = 0 \<rparr>,
       m_DepthStencilState =
         \<lparr> ds_pNext = [], ds_flags = 0, ds_depthTestEnable = VK_TRUE,
           ds_depthWriteEnable = VK_TRUE, ds_depthCompareOp = VK_COMPARE_OP_LESS,
           ds_depthBoundsTestEnable = VK_FALSE, ds_stencilTestEnable = VK_FALSE,
           ds_front = (0, 0, 0, 0, 0, 0, 0), ds_back = (0, 0, 0, 0, 0, 0, 0),
           ds_minDepthBounds = float_0, ds_maxDepthBounds = float_0 \<rparr>,
       m_ColorBlendState =
         \<lparr> cb_pNext = [], cb_flags = 0, cb_logicOpEnable = VK_FALSE, cb_logicOp = VK_LOGIC_OP_COPY,
           cb_attachments = (0, []), cb_blendConstants = (float_0, float_0, float_0, float_0) \<rparr>,
       m_DynamicState = \<lparr> dy_pNext = [], dy_flags = 0, dy_dynamicStates = (0, []) \<rparr>,
       m_TesellationStateEnabled = False,
       m_ShaderStages = [],
       m_Device = p_Device \<rparr>"

text \<open>\<open>setViewportState(uint32_t, uint32_t)\<close>: the counts only.\<close>

definition setViewportState_counts :: "uint32_t \<Rightarrow> uint32_t \<Rightarrow> VulkanPipelineBuilder \<Rightarrow> VulkanPipelineBuilder" where
  "setViewportState_counts p_ViewportCount p_ScissorCount b =
     b\<lparr> m_ViewportState := (m_ViewportState b)
          \<lparr> vp_viewports := (p_ViewportCount, snd (vp_viewports (m_ViewportState b))),
            vp_scissors := (p_ScissorCount, snd (vp_scissors (m_ViewportState b))) \<rparr> \<rparr>"

text \<open>\<open>setViewportState(std::span<const VkViewport>, std::span<const VkRect2D>)\<close>.\<close>

definition setViewportState_spans :: "VkViewport list \<Rightarrow> VkRect2D list \<Rightarrow> VulkanPipelineBuilder \<Rightarrow> VulkanPipelineBuilder" where
  "setViewportState_spans p_Viewports p_Scissors b =
     b\<lparr> m_ViewportState := (m_ViewportState b)
          \<lparr> vp_viewports := (of_nat (length p_Viewports), p_Viewports),
            vp_scissors := (of_nat (length p_Scissors), p_Scissors) \<rparr> \<rparr>"

definition setVertexInputState :: "VkPipelineVertexInputStateCreateInfo \<Rightarrow> VulkanPipelineBuilder \<Rightarrow> VulkanPipelineBuilder" where
  "setVertexInputState p_State b = b\<lparr> m_VertexInputState := p_State \<rparr>"

definition setTessellationState :: "VkPipelineTessellationStateCreateInfo \<Rightarrow> VulkanPipelineBuilder \<Rightarrow> VulkanPipelineBuilder" where
  "setTessellationState p_State b =
     b\<lparr> m_TessellationState := p_State, m_TesellationStateEnabled := True \<rparr>"

definition setViewportState :: "VkPipelineViewportStateCreateInfo \<Rightarrow> VulkanPipelineBuilder \<Rightarrow> VulkanPipelineBuilder" where
  "setViewportState p_State b = b\<lparr> m_ViewportState := p_State \<rparr>"

definition addShaderStage :: "nat \<Rightarrow> string \<Rightarrow> VulkanPipelineBuilder \<Rightarrow> VulkanPipelineBuilder" where
  "addShaderStage p_Shader p_Entrypoint b =
     b\<lparr> m_ShaderStages := m_ShaderStages b @ [(p_Shader, p_Entrypoint)] \<rparr>"

section \<open>VulkanPipelineBuilder: the hash functions\<close>

text \<open>
  Each function is the run of its \<open>hashCombine\<close> calls: the values combined, in program
  order, or the fault that stops the run.
\<close>

fun seqs :: "(fault + 'a list) list \<Rightarrow> fault + 'a list" where
  "seqs [] = Inr []"
| "seqs (x # xs) =
     (case x of
        Inl e \<Rightarrow> Inl e
      | Inr a \<Rightarrow> (case seqs xs of Inl e \<Rightarrow> Inl e | Inr b \<Rightarrow> Inr (a @ b)))"

definition for_each :: "('a \<Rightarrow> fault + 'b list) \<Rightarrow> fault + 'a list \<Rightarrow> fault + 'b list" where
  "for_each f xs = (case xs of Inl e \<Rightarrow> Inl e | Inr ys \<Rightarrow> seqs (map f ys))"

definition hashed :: "std_hash \<Rightarrow> size_t \<Rightarrow> fault + hval list \<Rightarrow> fault + size_t" where
  "hashed H l_Hash vs = (case vs of Inl e \<Rightarrow> Inl e | Inr xs \<Rightarrow> Inr (hashCombineAll H l_Hash xs))"

definition rect_values :: "VkRect2D \<Rightarrow> fault + hval list" where
  "rect_values l_Scissor =
     (case l_Scissor of ((x, y), (width, height)) \<Rightarrow> Inr [HI32 x, HI32 y, HU32 width, HU32 height])"

text \<open>
  In every sub-hash function the accumulator is declared \<^verbatim>\<open>size_t l_Hash;\<close> with no
  initialiser, and the first \<open>hashCombine\<close> reads it. What the variable holds at that point
  is not set by the program: it is the parameter \<open>l_Hash\<close> of the model.
\<close>

text \<open>The \<open>switch\<close> of \<open>getVertexInputHash\<close> (lines 188 to 202).\<close>

definition vertexInput_ext :: "ext \<Rightarrow> fault + hval list" where
  "vertexInput_ext l_PNext =
     (case l_PNext of
        VkPipelineVertexInputDivisorStateCreateInfoEXT divisors \<Rightarrow>
          for_each (\<lambda>(binding, divisor). Inr [HU32 binding, HU32 divisor]) (elems divisors)
      | _ \<Rightarrow> Inr [])"

text \<open>\<open>getVertexInputHash\<close>: \<^verbatim>\<open>if (m_VertexInputState.pNext)\<close>, one record, no loop.\<close>

definition getVertexInputHash :: "std_hash \<Rightarrow> size_t \<Rightarrow> VulkanPipelineBuilder \<Rightarrow> fault + size_t" where
  "getVertexInputHash H l_Hash b =
     (let st = m_VertexInputState b
      in hashed H l_Hash
           (seqs [case vi_pNext st of [] \<Rightarrow> Inr [] | l_PNext # _ \<Rightarrow> vertexInput_ext l_PNext,
                  Inr [HU32 (vi_flags st)],
                  for_each (\<lambda>(binding, stride, inputRate).
                              Inr [HU32 binding, HU32 stride, HEnum inputRate])
                    (elems (vi_bindings st)),
                  for_each (\<lambda>(location, binding, format, offset).
                              Inr [HU32 location, HU32 binding, HEnum format, HU32 offset])
                    (elems (vi_attributes st))]))"

definition getInputAssemblyHash :: "std_hash \<Rightarrow> size_t \<Rightarrow> VulkanPipelineBuilder \<Rightarrow> fault + size_t" where
  "getInputAssemblyHash H l_Hash b =
     (let st = m_InputAssemblyState b
      in hashed H l_Hash
           (Inr [HU32 (ia_flags st), HEnum (ia_topology st), HU32 (ia_primitiveRestartEnable st)]))"

definition tessellation_ext :: "ext \<Rightarrow> fault + hval list" where
  "tessellation_ext l_PNext =
     (case l_PNext of
        VkPipelineTessellationDomainOriginStateCreateInfo domainOrigin \<Rightarrow> Inr [HEnum domainOrigin]
      | _ \<Rightarrow> Inr [])"

text \<open>\<open>getTessellationHash\<close>: again \<^verbatim>\<open>if (m_TessellationState.pNext)\<close>, one record.\<close>

definition getTessellationHash :: "std_hash \<Rightarrow> size_t \<Rightarrow> VulkanPipelineBuilder \<Rightarrow> fault + size_t" where
  "getTessellationHash H l_Hash b =
     (let st = m_TessellationState b
      in hashed H l_Hash
           (seqs [case ts_pNext st of [] \<Rightarrow> Inr [] | l_PNext # _ \<Rightarrow> tessellation_ext l_PNext,
                  Inr [HU32 (ts_flags st), HU32 (ts_patchControlPoints st)]]))"

text \<open>The \<open>switch\<close> of \<open>getViewportStateHash\<close> (lines 262 to 361).\<close>

definition viewport_ext :: "ext \<Rightarrow> fault + hval list" where
  "viewport_ext l_PNext =
     (case l_PNext of
        VkPipelineTessellationDomainOriginStateCreateInfo domainOrigin \<Rightarrow> Inr [HEnum domainOrigin]
      | VkPipelineViewportCoarseSampleOrderStateCreateInfoNV sampleOrderType customSampleOrders \<Rightarrow>
          seqs [Inr [HEnum sampleOrderType],
                for_each (\<lambda>(shadingRate, sampleCount, sampleLocations).
                            seqs [Inr [HEnum shadingRate, HU32 sampleCount],
                                  for_each (\<lambda>(pixelX, pixelY, sample).
                                              Inr [HU32 pixelX, HU32 pixelY, HU32 sample])
                                    (elems sampleLocations)])
                  (elems customSampleOrders)]
      | VkPipelineViewportDepthClampControlCreateInfoEXT depthClampMode pDepthClampRange \<Rightarrow>
          Inr (HEnum depthClampMode
                 # (case pDepthClampRange of
                      None \<Rightarrow> []
                    | Some (minDepthClamp, maxDepthClamp) \<Rightarrow>
                        [HFloat minDepthClamp, HFloat maxDepthClamp]))
      | VkPipelineViewportDepthClipControlCreateInfoEXT negativeOneToOne \<Rightarrow>
          Inr [HU32 negativeOneToOne]
      | VkPipelineViewportExclusiveScissorStateCreateInfoNV exclusiveScissors \<Rightarrow>
          for_each rect_values (elems exclusiveScissors)
      | VkPipelineViewportShadingRateImageStateCreateInfoNV shadingRateImageEnable palettes \<Rightarrow>
          seqs [Inr [HU32 shadingRateImageEnable],
                for_each (\<lambda>l_Palette. for_each (\<lambda>entry. Inr [HEnum entry]) (elems l_Palette))
                  (elems palettes)]
      | VkPipelineViewportSwizzleStateCreateInfoNV flags swizzles \<Rightarrow>
          seqs [Inr [HU32 flags],
                for_each (\<lambda>(x, y, z, w). Inr [HEnum x, HEnum y, HEnum z, HEnum w]) (elems swizzles)]
      | VkPipelineViewportWScalingStateCreateInfoNV viewportWScalingEnable scalings \<Rightarrow>
          seqs [Inr [HU32 viewportWScalingEnable],
                for_each (\<lambda>(xcoeff, ycoeff). Inr [HFloat xcoeff, HFloat ycoeff]) (elems scalings)]
      | _ \<Rightarrow> Inr [])"

text \<open>
  \<open>getViewportStateHash\<close>: \<^verbatim>\<open>while (l_PNext)\<close> over the whole chain. The scissor count is
  combined as \<^verbatim>\<open>std::hash<uint32_t>()(scissorCount)\<close>, a \<open>size_t\<close>.
\<close>

definition getViewportStateHash :: "std_hash \<Rightarrow> size_t \<Rightarrow> VulkanPipelineBuilder \<Rightarrow> fault + size_t" where
  "getViewportStateHash H l_Hash b =
     (let st = m_ViewportState b
      in hashed H l_Hash
           (seqs [for_each viewport_ext (Inr (vp_pNext st)),
                  Inr [HU32 (vp_flags st), HU32 (fst (vp_viewports st))],
                  for_each (\<lambda>(x, y, width, height, minDepth, maxDepth).
                              Inr [HFloat x, HFloat y, HFloat width, HFloat height,
                                   HFloat minDepth, HFloat maxDepth])
                    (elems (vp_viewports st)),
                  Inr [HSize (H (HU32 (fst (vp_scissors st))))],
                  for_each rect_values (elems (vp_scissors st))]))"

definition rasterization_ext :: "ext \<Rightarrow> fault + hval list" where
  "rasterization_ext l_PNext =
     (case l_PNext of
        VkDepthBiasRepresentationInfoEXT depthBiasRepresentation \<Rightarrow>
          Inr [HEnum depthBiasRepresentation]
      | VkPipelineRasterizationConservativeStateCreateInfoEXT mode extraPrimitiveOverestimationSize \<Rightarrow>
          Inr [HEnum mode, HFloat extraPrimitiveOverestimationSize]
      | VkPipelineRasterizationDepthClipStateCreateInfoEXT flags depthClipEnable \<Rightarrow>
          Inr [HU32 flags, HU32 depthClipEnable]
      | VkPipelineRasterizationLineStateCreateInfo lineRasterizationMode stippledLineEnable
            lineStippleFactor lineStipplePattern \<Rightarrow>
          Inr [HEnum lineRasterizationMode, HU32 stippledLineEnable, HU32 lineStippleFactor,
               HU16 lineStipplePattern]
      | VkPipelineRasterizationProvokingVertexStateCreateInfoEXT provokingVertexMode \<Rightarrow>
          Inr [HEnum provokingVertexMode]
      | VkPipelineRasterizationStateRasterizationOrderAMD rasterizationOrder \<Rightarrow>
          Inr [HEnum rasterizationOrder]
      | VkPipelineRasterizationStateStreamCreateInfoEXT flags rasterizationStream \<Rightarrow>
          Inr [HU32 flags, HU32 rasterizationStream]
      | _ \<Rightarrow> Inr [])"

definition getRasterizationHash :: "std_hash \<Rightarrow> size_t \<Rightarrow> VulkanPipelineBuilder \<Rightarrow> fault + size_t" where
  "getRasterizationHash H l_Hash b =
     (let st = m_RasterizationState b
      in hashed H l_Hash
           (seqs [for_each rasterization_ext (Inr (rs_pNext st)),
                  Inr [HU32 (rs_flags st), HU32 (rs_depthClampEnable st),
                       HU32 (rs_rasterizerDiscardEnable st), HEnum (rs_polygonMode st),
                       HU32 (rs_cullMode st), HEnum (rs_frontFace st),
                       HU32 (rs_depthBiasEnable st)]]))"

definition multisample_ext :: "ext \<Rightarrow> fault + hval list" where
  "multisample_ext l_PNext =
     (case l_PNext of
        VkPipelineCoverageModulationStateCreateInfoNV flags coverageModulationMode
            coverageModulationTableEnable coverageModulationTable \<Rightarrow>
          seqs [Inr [HU32 flags, HEnum coverageModulationMode, HU32 coverageModulationTableEnable],
                for_each (\<lambda>v. Inr [HFloat v]) (elems coverageModulationTable)]
      | VkPipelineCoverageReductionStateCreateInfoNV flags coverageReductionMode \<Rightarrow>
          Inr [HU32 flags, HEnum coverageReductionMode]
      | VkPipelineCoverageToColorStateCreateInfoNV flags coverageToColorEnable
            coverageToColorLocation \<Rightarrow>
          Inr [HU32 flags, HU32 coverageToColorEnable, HU32 coverageToColorLocation]
      | VkPipelineSampleLocationsStateCreateInfoEXT sampleLocationsEnable sampleLocationsPerPixel
            gridWidth gridHeight sampleLocations \<Rightarrow>
          seqs [Inr [HU32 sampleLocationsEnable],
                if sampleLocationsEnable \<noteq> 0
                then seqs [Inr [HEnum sampleLocationsPerPixel, HU32 gridWidth, HU32 gridHeight],
                           for_each (\<lambda>(x, y). Inr [HFloat x, HFloat y]) (elems sampleLocations)]
                else Inr []]
      | _ \<Rightarrow> Inr [])"

text \<open>\<open>getMultisampleHash\<close>; the sample mask is not combined (\<^verbatim>\<open>// TODO: Sample mask\<close>).\<close>

definition getMultisampleHash :: "std_hash \<Rightarrow> size_t \<Rightarrow> VulkanPipelineBuilder \<Rightarrow> fault + size_t" where
  "getMultisampleHash H l_Hash b =
     (let st = m_MultisampleState b
      in hashed H l_Hash
           (seqs [for_each multisample_ext (Inr (ms_pNext st)),
                  Inr [HU32 (ms_flags st), HEnum (ms_rasterizationSamples st),
                       HU32 (ms_sampleShadingEnable st), HFloat (ms_minSampleShading st),
                       HU32 (ms_alphaToCoverageEnable st), HU32 (ms_alphaToOneEnable st)]]))"

definition stencil_values :: "VkStencilOpState \<Rightarrow> hval list" where
  "stencil_values st =
     (case st of (failOp, passOp, depthFailOp, compareOp, compareMask, writeMask, reference) \<Rightarrow>
        [HEnum failOp, HEnum passOp, HEnum depthFailOp, HEnum compareOp,
         HU32 compareMask, HU32 writeMask, HU32 reference])"

definition getDepthStencilHash :: "std_hash \<Rightarrow> size_t \<Rightarrow> VulkanPipelineBuilder \<Rightarrow> fault + size_t" where
  "getDepthStencilHash H l_Hash b =
     (let st = m_DepthStencilState b
      in hashed H l_Hash
           (Inr ([HU32 (ds_flags st), HU32 (ds_depthTestEnable st), HU32 (ds_depthWriteEnable st),
                  HEnum (ds_depthCompareOp st), HU32 (ds_depthBoundsTestEnable st),
                  HU32 (ds_stencilTestEnable st)]
                 @ stencil_values (ds_front st) @ stencil_values (ds_back st)
                 @ [HFloat (ds_minDepthBounds st), HFloat (ds_maxDepthBounds st)])))"

definition colorBlend_ext :: "ext \<Rightarrow> fault + hval list" where
  "colorBlend_ext l_PNext =
     (case l_PNext of
        VkPipelineColorWriteCreateInfoEXT colorWriteEnables \<Rightarrow>
          for_each (\<lambda>v. Inr [HU32 v]) (elems colorWriteEnables)
      | VkPipelineColorBlendAdvancedStateCreateInfoEXT srcPremultiplied dstPremultiplied blendOverlap \<Rightarrow>
          Inr [HU32 srcPremultiplied, HU32 dstPremultiplied, HEnum blendOverlap]
      | _ \<Rightarrow> Inr [])"

definition getColorBlendHash :: "std_hash \<Rightarrow> size_t \<Rightarrow> VulkanPipelineBuilder \<Rightarrow> fault + size_t" where
  "getColorBlendHash H l_Hash b =
     (let st = m_ColorBlendState b
      in hashed H l_Hash
           (seqs [for_each colorBlend_ext (Inr (cb_pNext st)),
                  Inr [HU32 (cb_flags st), HU32 (cb_logicOpEnable st), HEnum (cb_logicOp st)],
                  for_each (\<lambda>(blendEnable, srcColorBlendFactor, dstColorBlendFactor, colorBlendOp,
                               srcAlphaBlendFactor, dstAlphaBlendFactor, alphaBlendOp, colorWriteMask).
                              Inr [HU32 blendEnable, HEnum srcColorBlendFactor,
                                   HEnum dstColorBlendFactor, HEnum colorBlendOp,
                                   HEnum srcAlphaBlendFactor, HEnum dstAlphaBlendFactor,
                                   HEnum alphaBlendOp, HU32 colorWriteMask])
                    (elems (cb_attachments st)),
                  (case cb_blendConstants st of (c0, c1, c2, c3) \<Rightarrow>
                     Inr [HFloat c0, HFloat c1, HFloat c2, HFloat c3])]))"

definition getDynamicStateHash :: "std_hash \<Rightarrow> size_t \<Rightarrow> VulkanPipelineBuilder \<Rightarrow> fault + size_t" where
  "getDynamicStateHash H l_Hash b =
     (let st = m_DynamicState b
      in hashed H l_Hash
           (seqs [Inr [HU32 (dy_flags st)],
                  for_each (\<lambda>v. Inr [HEnum v]) (elems (dy_dynamicStates st))]))"

text \<open>
  \<open>getHash\<close>. Its own accumulator is initialised (\<^verbatim>\<open>size_t l_Hash = 0;\<close>). \<open>getStage\<close> stands
  for \<^verbatim>\<open>VulkanContext::getDevice(m_Device).getShaderModule(id).getStage()\<close>, and \<open>U\<close> gives,
  for each sub-hash function, what its uninitialised accumulator holds.
\<close>

datatype block =
    VertexInput | InputAssembly | Tessellation | Viewport | Rasterization
  | Multisample | DepthStencil | ColorBlend | DynamicState

definition sub_hash :: "fault + size_t \<Rightarrow> fault + hval list" where
  "sub_hash r = (case r of Inl e \<Rightarrow> Inl e | Inr h \<Rightarrow> Inr [HSize h])"

definition getHash ::
  "std_hash \<Rightarrow> (nat \<Rightarrow> uint32_t) \<Rightarrow> (block \<Rightarrow> size_t) \<Rightarrow> size_t \<Rightarrow> VulkanPipelineBuilder
     \<Rightarrow> fault + size_t" where
  "getHash H getStage U p_Hash b =
     hashed H 0
       (seqs [Inr [HSize p_Hash],
              for_each (\<lambda>(shader, entrypoint). Inr [HEnum (getStage shader), HStr entrypoint])
                (Inr (m_ShaderStages b)),
              sub_hash (getVertexInputHash H (U VertexInput) b),
              sub_hash (getInputAssemblyHash H (U InputAssembly) b),
              if m_TesellationStateEnabled b
              then sub_hash (getTessellationHash H (U Tessellation) b) else Inr [],
              sub_hash (getViewportStateHash H (U Viewport) b),
              sub_hash (getRasterizationHash H (U Rasterization) b),
              sub_hash (getMultisampleHash H (U Multisample) b),
              sub_hash (getDepthStencilHash H (U DepthStencil) b),
              sub_hash (getColorBlendHash H (U ColorBlend) b),
              sub_hash (getDynamicStateHash H (U DynamicState) b)])"


section \<open>Notions used to state the properties\<close>



section \<open>Concrete inputs\<close>

text \<open>
  One possible \<open>std::hash\<close>: the value itself for the integral types and the
  enumerations, the bit pattern for a \<open>float\<close> (0 for both zeros, which compare equal), a
  polynomial over the characters for a string.
\<close>

definition example_hash :: std_hash where
  "example_hash v =
     (case v of
        HSize w \<Rightarrow> w
      | HU32 w \<Rightarrow> ucast w
      | HU16 w \<Rightarrow> ucast w
      | HI32 w \<Rightarrow> scast w
      | HEnum w \<Rightarrow> scast w
      | HFloat w \<Rightarrow> (if w = 0x80000000 then 0 else ucast w)
      | HStr cs \<Rightarrow> foldl (\<lambda>h c. h * 31 + of_char c) 7 cs)"

definition example_program :: Program where
  "example_program =
     [(\<lparr> ep_stage = SLANG_STAGE_VERTEX, ep_name = ''vsMain'' \<rparr>, Some [0x07230203, 1]),
      (\<lparr> ep_stage = SLANG_STAGE_FRAGMENT, ep_name = ''fsMain'' \<rparr>, Some [0x07230203, 2])]"

text \<open>
  A backend that fails to load the source \<open>bad\<close>, loads any other source as a module with a
  vertex and a fragment entry point, and links any non-empty component list.
\<close>

definition example_env :: Env where
  "example_env =
     \<lparr> createGlobalSession = (\<lambda>_. True),
       createSession = (\<lambda>_. True),
       loadModuleFromSourceString =
         (\<lambda>_ _ src. if src = ''bad'' then None
                     else Some [Some \<lparr> ep_stage = SLANG_STAGE_VERTEX, ep_name = ''vsMain'' \<rparr>,
                                Some \<lparr> ep_stage = SLANG_STAGE_FRAGMENT, ep_name = ''fsMain'' \<rparr>]),
       createCompositeComponentType = (\<lambda>_ comps. if comps = [] then None else Some example_program),
       getBuildTagString = (\<lambda>_. ''slang-test''),
       openForWriting = (\<lambda>_. True),
       parent_path = (\<lambda>_. []),
       directory_entries = (\<lambda>_ _. None),
       extension = (\<lambda>_. []) \<rparr>"

text \<open>The same backend with a linker that always fails.\<close>

definition example_env_no_link :: Env where
  "example_env_no_link = example_env \<lparr> createCompositeComponentType := (\<lambda>_ _. None) \<rparr>"

text \<open>Three shaders without a cache, each set up through the public calls.\<close>

definition two_bad_modules :: System where
  "two_bad_modules =
     snd (do_calls example_env
            [AddModuleString ''bad'' ''first'', AddModuleString ''bad'' ''second'']
            (VulkanShader_init 0 True [] {} []))"

definition bad_then_good :: System where
  "bad_then_good =
     snd (do_calls example_env
            [AddModuleString ''bad'' ''first'', AddModuleString ''void f(){}'' ''second'']
            (VulkanShader_init 0 True [] {} []))"

definition one_good_module :: System where
  "one_good_module =
     snd (do_calls example_env [AddModuleString ''void f(){}'' ''only'']
            (VulkanShader_init 0 True [] {} []))"

text \<open>
  A cache file for content hash 42 holding one record, and a shader whose cache file is
  that file cut off after 70 of its 94 bytes: the header, the count 1, and two of the four
  bytes of the record's stage.
\<close>

definition cached_record :: CachedCodes where
  "cached_record = \<lparr> cc_stage = 1, cc_name = ''vsMain'', cc_spirv = [0x07230203, 1] \<rparr>"

definition cache_header_42 :: CacheHeader where
  "cache_header_42 =
     CacheHeader_init \<lparr> spirvProfile := char_array 16 SPIRV_PROFILE, contentHash := 42 \<rparr>"




definition stale_cache :: System where
  "stale_cache =
     snd (do_calls example_env [EnableCache ''c.bin'', AddModuleString ''void f(){}'' ''m'']
            (VulkanShader_init 0 True [] {}
               [(''c.bin'', cache_file_bytes cache_header_42 [cached_record])]))"

text \<open>A pipeline builder after \<open>setViewportState(0, 0)\<close>.\<close>

definition pipeline_example :: VulkanPipelineBuilder where
  "pipeline_example = setViewportState_counts 0 0 (VulkanPipelineBuilder_init 0)"


section \<open>Basic facts\<close>

lemma set_failed_simps [simp]:
  "m_Result (set_failed msg s) = \<lparr> status = FAILED, error = msg \<rparr>"
  "files (set_failed msg s) = files s"
  "files_log (set_failed msg s) = files_log s"
  "m_HashFile (set_failed msg s) = m_HashFile s"
  "m_CachedCodes (set_failed msg s) = m_CachedCodes s"
  "m_Hash (set_failed msg s) = m_Hash s"
  "m_Optimize (set_failed msg s) = m_Optimize s"
  "m_UseCache (set_failed msg s) = m_UseCache s"
  by (simp_all add: set_failed_def)

lemma file_ops_fields [simp]:
  "m_Result (file_create p s) = m_Result s"
  "m_Result (file_write p b s) = m_Result s"
  "m_SlangProgram (file_create p s) = m_SlangProgram s"
  "m_SlangProgram (file_write p b s) = m_SlangProgram s"
  "m_HashFile (file_write p b s) = m_HashFile s"
  "m_CachedCodes (file_write p b s) = m_CachedCodes s"
  "m_HashFile (file_create p s) = m_HashFile s"
  "m_CachedCodes (file_create p s) = m_CachedCodes s"
  "m_Hash (file_create p s) = m_Hash s"
  "m_Optimize (file_create p s) = m_Optimize s"
  "m_CompilationThread (file_create p s) = m_CompilationThread s"
  "s_SlangSessions (file_create p s) = s_SlangSessions s"
  by (simp_all add: file_create_def file_write_def Let_def)

lemma save_key_frame [simp]:
  "m_Result (snd (save_key H s)) = m_Result s"
  "m_SlangProgram (snd (save_key H s)) = m_SlangProgram s"
  by (simp_all add: save_key_def Let_def split: prod.splits)

lemma compile_key_frame [simp]:
  "m_UseCache (snd (compile_key H s)) = m_UseCache s"
  "m_Result (snd (compile_key H s)) = m_Result s"
  "files (snd (compile_key H s)) = files s"
  "m_HashFile (snd (compile_key H s)) = m_HashFile s"
  "m_ExpectedStages (snd (compile_key H s)) = m_ExpectedStages s"
  "m_ExpectedEntryPoints (snd (compile_key H s)) = m_ExpectedEntryPoints s"
  "m_CachedCodes (snd (compile_key H s)) = m_CachedCodes s"
  by (simp_all add: compile_key_def Let_def split: prod.splits)

section \<open>The recursion between compile, saveCodeCache and getSpirvForStage\<close>

lemma extractForStage_frame:
  "extractForStage st s = (r, s') \<Longrightarrow>
     s' = s \<or> (\<exists>msg. s' = set_failed msg s \<and> r = Inr [])"
  by (auto simp: extractForStage_def split: option.splits sum.splits)

lemma getSpirvForStage_open_compiled:
  "status (m_Result s) = COMPILED \<Longrightarrow>
     getSpirvForStage_open C st s =
       (case find (\<lambda>c. cc_stage c = st) (m_CachedCodes s) of
          Some c \<Rightarrow> (Inr (cc_spirv c), s)
        | None \<Rightarrow> extractForStage st s)"
  by (simp add: getSpirvForStage_open_def and_then_def split: option.splits)

lemma getSpirvForStage_open_compiled_frame:
  assumes "status (m_Result s) = COMPILED" "getSpirvForStage_open C st s = (r, s')"
  shows "s' = s \<or> (\<exists>msg. s' = set_failed msg s \<and> r = Inr [])"
  using assms extractForStage_frame[of st s r s']
  by (auto simp: getSpirvForStage_open_compiled split: option.splits)

lemma saveEntryPoints_indep:
  "status (m_Result s) = COMPILED \<Longrightarrow> saveEntryPoints C es s = saveEntryPoints C' es s"
proof (induction es arbitrary: s)
  case Nil
  then show ?case by simp
next
  case (Cons e es)
  show ?case
  proof (cases "getVkStageFromSlangStage (ep_stage (fst e))")
    case (Inl a)
    then show ?thesis by simp
  next
    case (Inr l_Stage)
    obtain r s1 where g: "getSpirvForStage_open C l_Stage s = (r, s1)"
      by (cases "getSpirvForStage_open C l_Stage s")
    have g': "getSpirvForStage_open C' l_Stage s = (r, s1)"
      using g Cons.prems by (simp add: getSpirvForStage_open_compiled)
    from getSpirvForStage_open_compiled_frame[OF Cons.prems g]
    show ?thesis
    proof
      assume "s1 = s"
      then show ?thesis using Inr g g' Cons.prems Cons.IH
        by (cases r) (simp_all add: and_then_def)
    next
      assume "\<exists>msg. s1 = set_failed msg s \<and> r = Inr []"
      then show ?thesis using Inr g g' by (auto simp: and_then_def)
    qed
  qed
qed

lemma saveCodeCache_open_indep:
  "saveCodeCache_open C H B s = saveCodeCache_open C' H B s"
proof -
  have "\<And>l s3. status (m_Result s3) = COMPILED \<Longrightarrow>
          saveEntryPoints C l s3 = saveEntryPoints C' l s3"
    by (rule saveEntryPoints_indep)
  then show ?thesis
    unfolding saveCodeCache_open_def
    by (auto simp: Let_def split: prod.splits option.splits)
qed

lemma compile_live_indep: "compile_live C H B s = compile_live C' H B s"
proof -
  have "saveCodeCache_open C H B = saveCodeCache_open C' H B"
    by (rule ext) (rule saveCodeCache_open_indep)
  then show ?thesis unfolding compile_live_def by (rule arg_cong)
qed

lemma compile_open_indep: "compile_open C H B f s = compile_open C' H B f s"
proof -
  have "compile_live C H B = compile_live C' H B"
    by (rule ext) (rule compile_live_indep)
  then show ?thesis unfolding compile_open_def by (rule arg_cong)
qed

text \<open>
  \<open>compile\<close> satisfies the equation the source gives it: its body, with \<open>compile\<close> itself
  as the inner call.
\<close>

lemma compile_unfold: "compile H B f s = compile_open (compile H B) H B f s"
  unfolding compile_def by (rule compile_open_indep)

section \<open>Properties of ShaderHash\<close>

text \<open>
  Claim C9. The encoding \<open>name=value\<close> of a macro is not injective: the distinct pairs
  \<open>(a, b=c)\<close> and \<open>(a=b, c)\<close> make \<open>addMacro\<close> append the same content string, so the two
  resulting \<open>ShaderHash\<close> objects are equal and \<open>getHash\<close> returns the same combined hash
  for both.
\<close>

theorem addMacro_not_injective:
  "(''a'', ''b=c'') \<noteq> (''a=b'', ''c'')
   \<and> addMacro ''a'' ''b=c'' h = addMacro ''a=b'' ''c'' h
   \<and> m_Data (addMacro ''a'' ''b=c'' h) = m_Data h @ [''a=b=c'']
   \<and> ShaderHash_getHash H (addMacro ''a'' ''b=c'' h)
       = ShaderHash_getHash H (addMacro ''a=b'' ''c'' h)"
  by (simp add: addMacro_def)

section \<open>The cache key\<close>

text \<open>
  Between the lookup and the save, \<open>compile\<close> runs \<open>tryLoadCachedCode\<close> and the live
  compilation; neither touches the \<open>ShaderHash\<close> or the optimisation flag.
\<close>

lemma tryLoadCachedCode_keeps_key_inputs:
  "m_Hash (snd (tryLoadCachedCode k s)) = m_Hash s
   \<and> m_Optimize (snd (tryLoadCachedCode k s)) = m_Optimize s"
  by (auto simp: tryLoadCachedCode_def Let_def split: prod.splits option.splits sum.splits)

lemma registerEntryPoints_keeps_key_inputs:
  "m_Hash (registerEntryPoints i eps s) = m_Hash s
   \<and> m_Optimize (registerEntryPoints i eps s) = m_Optimize s"
  by (induction i eps s rule: registerEntryPoints.induct) simp_all

lemma loadModuleString_keeps_key_inputs:
  "m_Hash (snd (loadModuleString B src n s)) = m_Hash s
   \<and> m_Optimize (snd (loadModuleString B src n s)) = m_Optimize s"
  by (simp add: loadModuleString_def registerEntryPoints_keeps_key_inputs split: option.splits)

lemma loadModule_keeps_key_inputs:
  "m_Hash (snd (loadModule B f n s)) = m_Hash s
   \<and> m_Optimize (snd (loadModule B f n s)) = m_Optimize s"
  by (simp add: loadModule_def loadModuleString_keeps_key_inputs addSearchPath_def Let_def
           split: option.splits)

lemma loadModules_keeps_key_inputs:
  "m_Hash (snd (loadModules B ms s)) = m_Hash s
   \<and> m_Optimize (snd (loadModules B ms s)) = m_Optimize s"
proof (induction ms arbitrary: s)
  case Nil
  then show ?case by simp
next
  case (Cons m ms)
  let ?r = "if md_type m = FILE then loadModule B (md_data m) (md_name m) s
            else loadModuleString B (md_data m) (md_name m) s"
  have k: "m_Hash (snd ?r) = m_Hash s \<and> m_Optimize (snd ?r) = m_Optimize s"
    using loadModule_keeps_key_inputs loadModuleString_keeps_key_inputs by simp
  show ?case
  proof (cases ?r)
    case (Pair q s1)
    then show ?thesis using k Cons.IH[of s1] by (cases q) (simp_all add: and_then_def)
  qed
qed

lemma compile_front_keeps_key_inputs:
  "m_Hash (snd (compile_front B s)) = m_Hash s
   \<and> m_Optimize (snd (compile_front B s)) = m_Optimize s"
proof -
  let ?s1 = "snd (buildSession B (m_CompilationThread s) (m_Optimize s) s)"
  have b: "m_Hash ?s1 = m_Hash s \<and> m_Optimize ?s1 = m_Optimize s"
    by (simp add: buildSession_def Let_def)
  have l: "m_Hash (snd (loadModules B (m_Modules ?s1) ?s1)) = m_Hash s
           \<and> m_Optimize (snd (loadModules B (m_Modules ?s1) ?s1)) = m_Optimize s"
    using loadModules_keeps_key_inputs[of B "m_Modules ?s1" ?s1] b by simp
  have f: "\<And>s2. m_Hash (snd (linkAndFinalize B s2)) = m_Hash s2
                \<and> m_Optimize (snd (linkAndFinalize B s2)) = m_Optimize s2"
    by (simp add: linkAndFinalize_def Let_def split: option.splits)
  show ?thesis
  proof (cases "loadModules B (m_Modules ?s1) ?s1")
    case (Pair q s2)
    then show ?thesis using l f[of s2]
      by (cases q) (simp_all add: compile_front_def and_then_def Let_def)
  qed
qed

text \<open>
  Claim C7. The key \<open>compile\<close> looks the cache up with and the content hash
  \<open>saveCodeCache\<close> puts into the header are the same function of the same inputs: for a
  state \<open>s\<close> at the lookup and a state \<open>s'\<close> at the save with the same optimisation flag and
  the same \<open>ShaderHash\<close> (as it was, or with the memo the lookup left in it), the saved
  header carries the lookup key, and that key is the accumulated content hash combined with
  the optimisation flag and then with the profile string. In particular this holds for the
  state \<open>compile\<close> hands to \<open>saveCodeCache\<close>: the one its live compilation reaches from the
  state the cache load left, with whatever status.
\<close>

theorem cache_key_load_save_agree:
  "(m_Optimize s' = m_Optimize s
      \<and> (m_Hash s' = m_Hash s \<or> m_Hash s' = m_Hash (snd (compile_key H s))) \<longrightarrow>
      fst (save_key H s') = fst (compile_key H s)
      \<and> contentHash (saved_header H B s') = fst (compile_key H s))
   \<and> contentHash
        (saved_header H B
           (snd (compile_front B
                   ((snd (tryLoadCachedCode (fst (compile_key H s)) (snd (compile_key H s))))
                      \<lparr> m_Result := res \<rparr>))))
       = fst (compile_key H s)
   \<and> fst (compile_key H s)
       = hashCombine H
           (hashCombine H (fst (ShaderHash_getHash H (m_Hash s)))
              (HSize (if m_Optimize s then 1 else 0)))
           (HStr SPIRV_PROFILE)"
proof -
  have g: "\<And>s'. m_Optimize s' = m_Optimize s
      \<and> (m_Hash s' = m_Hash s \<or> m_Hash s' = m_Hash (snd (compile_key H s))) \<Longrightarrow>
      fst (save_key H s') = fst (compile_key H s)
      \<and> contentHash (saved_header H B s') = fst (compile_key H s)"
    by (auto simp: save_key_def compile_key_def saved_header_def ShaderHash_getHash_def Let_def
             split: prod.splits if_splits)
  let ?s2 = "(snd (tryLoadCachedCode (fst (compile_key H s)) (snd (compile_key H s))))
               \<lparr> m_Result := res \<rparr>"
  have o: "m_Optimize (snd (compile_key H s)) = m_Optimize s"
    by (simp add: compile_key_def Let_def split: prod.splits)
  have "m_Optimize (snd (compile_front B ?s2)) = m_Optimize s
        \<and> m_Hash (snd (compile_front B ?s2)) = m_Hash (snd (compile_key H s))"
    using compile_front_keeps_key_inputs[of B ?s2]
      tryLoadCachedCode_keeps_key_inputs[of "fst (compile_key H s)" "snd (compile_key H s)"] o
    by simp
  then have e: "contentHash (saved_header H B (snd (compile_front B ?s2))) = fst (compile_key H s)"
    using g by blast
  have f: "fst (compile_key H s)
       = hashCombine H
           (hashCombine H (fst (ShaderHash_getHash H (m_Hash s)))
              (HSize (if m_Optimize s then 1 else 0)))
           (HStr SPIRV_PROFILE)"
    by (simp add: compile_key_def Let_def split: prod.splits)
  show ?thesis using g e f by blast
qed

theorem cache_key_load_save_agree_witness:
  "m_Optimize (snd (compile_key example_hash stale_cache)) = m_Optimize stale_cache
   \<and> fst (save_key example_hash (snd (compile_key example_hash stale_cache)))
       = fst (compile_key example_hash stale_cache)
   \<and> contentHash (saved_header example_hash example_env (snd (compile_key example_hash stale_cache)))
       = fst (compile_key example_hash stale_cache)"
proof -
  have o: "m_Optimize (snd (compile_key example_hash stale_cache)) = m_Optimize stale_cache"
    by (simp add: compile_key_def Let_def split: prod.splits)
  show ?thesis
    using o cache_key_load_save_agree
            [of "snd (compile_key example_hash stale_cache)" stale_cache example_hash example_env]
    by simp
qed

section \<open>Modules added before the cache is enabled\<close>

lemma do_calls_append:
  "do_calls B (xs @ ys) s = and_then (do_calls B xs s) (\<lambda>_ s'. do_calls B ys s')"
  by (induction xs arbitrary: s) (auto simp: and_then_def split: prod.splits sum.splits)

lemma do_call_no_cache:
  assumes "\<not> m_UseCache s" "\<forall>p. c \<noteq> EnableCache p"
  shows "fst (do_call B c s) = Inr () \<and> \<not> m_UseCache (snd (do_call B c s))
         \<and> m_Hash (snd (do_call B c s)) = m_Hash s"
  using assms
  by (cases c)
     (simp_all add: setExpectedStages_def addModule_def addModuleString_def addSearchPath_def
        addCacheDependency_def addCacheDependencyFolder_def Let_def)

lemma do_calls_no_cache:
  assumes "\<not> m_UseCache s" "\<forall>p. EnableCache p \<notin> set cs"
  shows "fst (do_calls B cs s) = Inr () \<and> \<not> m_UseCache (snd (do_calls B cs s))
         \<and> m_Hash (snd (do_calls B cs s)) = m_Hash s"
  using assms
proof (induction cs arbitrary: s)
  case Nil
  then show ?case by simp
next
  case (Cons c cs)
  have c: "\<forall>p. c \<noteq> EnableCache p" using Cons.prems(2) by auto
  note h = do_call_no_cache[OF Cons.prems(1) c, of B]
  obtain s1 where s1: "do_call B c s = (Inr (), s1)"
    using h by (cases "do_call B c s") auto
  have "\<not> m_UseCache s1" "m_Hash s1 = m_Hash s" using h s1 by auto
  moreover have "\<forall>p. EnableCache p \<notin> set cs" using Cons.prems(2) by auto
  ultimately show ?case using Cons.IH[of s1] s1 by (simp add: and_then_def)
qed

text \<open>A different module list changes nothing but the module list.\<close>

lemma do_call_modules_aux:
  "fst (do_call B c (s\<lparr> m_Modules := ms \<rparr>)) = fst (do_call B c s)
   \<and> snd (do_call B c (s\<lparr> m_Modules := ms \<rparr>))
       = (snd (do_call B c s))
           \<lparr> m_Modules := m_Modules (snd (do_call B c (s\<lparr> m_Modules := ms \<rparr>))) \<rparr>"
  by (cases c)
     (auto simp: enableCache_def setExpectedStages_def addModule_def addModuleString_def
        addSearchPath_def addCacheDependency_def addCacheDependencyFolder_def Let_def
        and_then_def with_hash_def split: prod.splits sum.splits)

lemma do_call_modules:
  "\<exists>ms'. do_call B c (s\<lparr> m_Modules := ms \<rparr>)
          = (fst (do_call B c s), (snd (do_call B c s))\<lparr> m_Modules := ms' \<rparr>)"
  using do_call_modules_aux[where B=B and c=c and s=s and ms=ms] by (metis prod.collapse)

lemma do_calls_modules:
  "\<exists>ms'. do_calls B cs (s\<lparr> m_Modules := ms \<rparr>)
          = (fst (do_calls B cs s), (snd (do_calls B cs s))\<lparr> m_Modules := ms' \<rparr>)"
proof (induction cs arbitrary: s ms)
  case Nil
  then show ?case by auto
next
  case (Cons c cs)
  obtain ms1 where c: "do_call B c (s\<lparr> m_Modules := ms \<rparr>)
          = (fst (do_call B c s), (snd (do_call B c s))\<lparr> m_Modules := ms1 \<rparr>)"
    using do_call_modules by blast
  obtain r s1 where r: "do_call B c s = (r, s1)" by (cases "do_call B c s")
  show ?case
  proof (cases r)
    case (Inl e)
    then show ?thesis using c r by (auto simp: and_then_def)
  next
    case (Inr u)
    obtain ms2 where "do_calls B cs (s1\<lparr> m_Modules := ms1 \<rparr>)
          = (fst (do_calls B cs s1), (snd (do_calls B cs s1))\<lparr> m_Modules := ms2 \<rparr>)"
      using Cons.IH by blast
    then show ?thesis using c r Inr by (auto simp: and_then_def)
  qed
qed

lemma compile_key_modules:
  "fst (compile_key H (s\<lparr> m_Modules := ms \<rparr>)) = fst (compile_key H s)"
  by (simp add: compile_key_def Let_def split: prod.splits)

lemma module_before_cache:
  assumes nc: "\<not> m_UseCache s"
    and c: "c = AddModule a n \<or> c = AddModuleString a n"
  shows "fst (do_calls B (c # post) s) = fst (do_calls B post s)
       \<and> m_Hash (snd (do_calls B (c # post) s)) = m_Hash (snd (do_calls B post s))
       \<and> fst (compile_key H (snd (do_calls B (c # post) s)))
           = fst (compile_key H (snd (do_calls B post s)))"
proof -
  obtain ms where "do_call B c s = (Inr (), s\<lparr> m_Modules := ms \<rparr>)"
    using nc c by (auto simp: addModule_def addModuleString_def Let_def)
  then have e: "do_calls B (c # post) s = do_calls B post (s\<lparr> m_Modules := ms \<rparr>)"
    by (simp add: and_then_def)
  obtain ms' where "do_calls B post (s\<lparr> m_Modules := ms \<rparr>)
          = (fst (do_calls B post s), (snd (do_calls B post s))\<lparr> m_Modules := ms' \<rparr>)"
    using do_calls_modules by blast
  then show ?thesis using e by (simp add: compile_key_modules)
qed

text \<open>
  Claim C10. On a freshly constructed shader, take any run of configuration calls in which
  \<open>addModule\<close> or \<open>addModuleString\<close> comes before the first \<open>enableCache\<close>. Leaving that
  call out changes neither the way the run ends, nor the \<open>ShaderHash\<close> it leaves, nor the
  key \<open>compile\<close> would look the cache up with: the module's source, type tag and name are
  not in the content hash, whatever calls follow.
\<close>

theorem module_added_before_enableCache_not_in_key:
  assumes "\<forall>p. EnableCache p \<notin> set pre"
    and "c = AddModule a n \<or> c = AddModuleString a n"
  shows "fst (do_calls B (pre @ c # post) (VulkanShader_init t opt macros sessions d))
           = fst (do_calls B (pre @ post) (VulkanShader_init t opt macros sessions d))
       \<and> m_Hash (snd (do_calls B (pre @ c # post) (VulkanShader_init t opt macros sessions d)))
           = m_Hash (snd (do_calls B (pre @ post) (VulkanShader_init t opt macros sessions d)))
       \<and> fst (compile_key H (snd (do_calls B (pre @ c # post)
                                      (VulkanShader_init t opt macros sessions d))))
           = fst (compile_key H (snd (do_calls B (pre @ post)
                                        (VulkanShader_init t opt macros sessions d))))"
proof -
  let ?s0 = "VulkanShader_init t opt macros sessions d"
  have n0: "\<not> m_UseCache ?s0" by (simp add: VulkanShader_init_def)
  note p = do_calls_no_cache[OF n0 assms(1), of B]
  obtain s1 where s1: "do_calls B pre ?s0 = (Inr (), s1)"
    using p by (cases "do_calls B pre ?s0") auto
  have n1: "\<not> m_UseCache s1" using p s1 by simp
  have a: "do_calls B (pre @ c # post) ?s0 = do_calls B (c # post) s1"
    using s1 by (simp add: do_calls_append and_then_def)
  have b: "do_calls B (pre @ post) ?s0 = do_calls B post s1"
    using s1 by (simp add: do_calls_append and_then_def)
  show ?thesis unfolding a b by (rule module_before_cache[OF n1 assms(2)])
qed

theorem module_added_before_enableCache_not_in_key_witness:
  "(\<forall>p. EnableCache p \<notin> set [SetExpectedStages 1 []])
   \<and> fst (compile_key example_hash
            (snd (do_calls example_env
                    ([SetExpectedStages 1 []] @ AddModuleString ''void f(){}'' ''m''
                       # [EnableCache ''c.bin'', AddModuleString ''void g(){}'' ''n''])
                    (VulkanShader_init 0 True [] {} []))))
       = fst (compile_key example_hash
                (snd (do_calls example_env
                        ([SetExpectedStages 1 []]
                           @ [EnableCache ''c.bin'', AddModuleString ''void g(){}'' ''n''])
                        (VulkanShader_init 0 True [] {} []))))"
proof -
  have h: "\<forall>p. EnableCache p \<notin> set [SetExpectedStages 1 []]" by simp
  show ?thesis
    using h module_added_before_enableCache_not_in_key
              [OF h, of "AddModuleString ''void f(){}'' ''m''" "''void f(){}''" "''m''"
                 example_env "[EnableCache ''c.bin'', AddModuleString ''void g(){}'' ''n'']"
                 0 True "[]" "{}" "[]" example_hash]
    by simp
qed


section \<open>Evaluating the concrete inputs\<close>

lemma of_char_char_of_nat: "(of_char (char_of (n::nat)) :: 'a::len word) = of_nat (n mod 256)"
proof -
  have "(of_char (char_of n) :: 'a word) = of_nat (of_char (char_of n))"
    by (simp only: of_nat_of_char)
  also have "\<dots> = of_nat (n mod 256)" by (simp only: of_char_of)
  finally show ?thesis .
qed

lemma and_then_weak_cong: "r = r' \<Longrightarrow> and_then r f = and_then r' f"
  by simp


lemmas config_defs =
  VulkanShader_init_def ShaderHash_init_def enableCache_def setExpectedStages_def
  addModule_def addModuleString_def addSearchPath_def addString_def addMacro_def
  and_then_def with_hash_def Let_def

lemmas live_defs =
  compile_def compile_open_def compile_live_def compile_front_def compile_key_def ShaderHash_getHash_def
  hashCombineAll_def buildSession_def loadModuleString_def loadModule_def linkAndFinalize_def
  set_failed_def example_env_def example_env_no_link_def example_program_def


section \<open>Failures during compile\<close>

text \<open>
  Claim C3, evaluated on the code. With two inline modules that both fail to load, the
  message left after \<open>compile\<close> is the second module's: \<open>loadModuleString\<close> has no test of
  the status, so the second load runs after the first failure and overwrites its message.
  With a failing module followed by a good one, the good one is loaded after the failure
  and its components are registered. With a linker that fails, \<open>linkAndFinalize\<close> sets
  \<open>FAILED\<close> and the message, does not return, and overwrites the status with \<open>COMPILED\<close>.
\<close>

theorem compile_failure_is_overwritten:
  "m_Result (snd (compile H example_env False two_bad_modules))
     = \<lparr> status = FAILED, error = ''Failed to load shader module: second'' \<rparr>
   \<and> m_Result (snd (compile H example_env False bad_then_good))
       = \<lparr> status = FAILED, error = ''Failed to load shader module: first'' \<rparr>
   \<and> m_SlangComponents (snd (compile H example_env False bad_then_good))
       = [ModuleComponent ''second''
            [Some \<lparr> ep_stage = SLANG_STAGE_VERTEX, ep_name = ''vsMain'' \<rparr>,
             Some \<lparr> ep_stage = SLANG_STAGE_FRAGMENT, ep_name = ''fsMain'' \<rparr>],
          EntryPointComponent \<lparr> ep_stage = SLANG_STAGE_VERTEX, ep_name = ''vsMain'' \<rparr>,
          EntryPointComponent \<lparr> ep_stage = SLANG_STAGE_FRAGMENT, ep_name = ''fsMain'' \<rparr>]
   \<and> m_Result (snd (compile H example_env_no_link False one_good_module))
       = \<lparr> status = COMPILED, error = ''Failed to link shader modules'' \<rparr>"
  by (simp add: two_bad_modules_def bad_then_good_def one_good_module_def config_defs live_defs
       cong: let_weak_cong and_then_weak_cong)

section \<open>Requests for code\<close>






section \<open>Cache load\<close>

text \<open>
  Claim C6. With the cache enabled, whenever the cache file is absent, or its header fails
  the magic, version, profile or content-hash test, or the records read lack an expected
  stage or an expected entry-point name, \<open>tryLoadCachedCode\<close> returns false, leaves
  \<open>m_Result\<close> (status and message) as it was and raises nothing, and \<open>compile\<close> goes on with
  the live compilation from the state the load left.
\<close>

theorem rejected_cache_is_soft_miss:
  assumes cache: "m_UseCache s"
    and rejected:
      "map_of (files s) (m_HashFile s) = None
       \<or> (\<exists>content. map_of (files s) (m_HashFile s) = Some content
            \<and> (magic (fst (readHeader content)) \<noteq> CACHE_MAGIC
               \<or> version (fst (readHeader content)) \<noteq> CACHE_VERSION
               \<or> c_str (spirvProfile (fst (readHeader content))) \<noteq> SPIRV_PROFILE
               \<or> contentHash (fst (readHeader content)) \<noteq> fst (compile_key H s)
               \<or> (\<exists>cs. readRecords (snd (readHeader content)) = Inr cs
                    \<and> (missingStage (m_ExpectedStages s) (m_CachedCodes s @ cs) \<noteq> None
                       \<or> missingEntryPoint (m_ExpectedEntryPoints s) (m_CachedCodes s @ cs)
                            \<noteq> None))))"
  shows "fst (tryLoadCachedCode (fst (compile_key H s)) (snd (compile_key H s))) = Inr False
         \<and> m_Result (snd (tryLoadCachedCode (fst (compile_key H s)) (snd (compile_key H s))))
             = m_Result s
         \<and> compile H B p_ForceCompile s
             = compile_live (compile H B) H B
                 (snd (tryLoadCachedCode (fst (compile_key H s)) (snd (compile_key H s))))"
proof -
  let ?k = "fst (compile_key H s)"
  let ?s1 = "snd (compile_key H s)"
  have miss: "fst (tryLoadCachedCode ?k ?s1) = Inr False
              \<and> m_Result (snd (tryLoadCachedCode ?k ?s1)) = m_Result s"
    using rejected
    by (auto simp: tryLoadCachedCode_def Let_def split: prod.splits option.splits sum.splits)
  obtain s2 where t: "tryLoadCachedCode ?k ?s1 = (Inr False, s2)"
    using miss by (cases "tryLoadCachedCode ?k ?s1") auto
  have "compile H B p_ForceCompile s = compile_open (compile H B) H B p_ForceCompile s"
    by (rule compile_unfold)
  also have "\<dots> = compile_live (compile H B) H B s2"
    using cache t by (simp add: compile_open_def and_then_def case_prod_beta)
  finally show ?thesis using miss t by simp
qed


lemmas load_defs =
  tryLoadCachedCode_def cache_file_bytes_def cache_header_42_def cached_record_def
  readHeader_def readRecords_def header_bytes_def header_of_bytes_def CacheHeader_init_def
  record_bytes_def stream_read_def read_u32_def loadRecord_def u32_le_def u64_le_def
  le_u32_def le_u64_def char_array_def c_str_def NUL_def CACHE_MAGIC_def CACHE_VERSION_def
  SPIRV_PROFILE_def missingStage_def missingEntryPoint_def of_char_char_of_nat

lemma stale_cache_eval:
  "m_UseCache stale_cache"
  "map_of (files stale_cache) (m_HashFile stale_cache)
     = Some (cache_file_bytes cache_header_42 [cached_record])"
  "m_Result stale_cache = \<lparr> status = NOT_READY, error = [] \<rparr>"
  by (simp_all add: stale_cache_def config_defs)

lemma stale_cache_key: "fst (compile_key example_hash stale_cache) \<noteq> 42"
  by (simp add: stale_cache_def config_defs compile_key_def ShaderHash_getHash_def
        hashCombineAll_def hashCombine_def example_hash_def SPIRV_PROFILE_def)

lemma cache_header_42_read:
  "contentHash (fst (readHeader (cache_file_bytes cache_header_42 [cached_record]))) = 42"
  by (simp add: load_defs Let_def)

theorem rejected_cache_is_soft_miss_witness:
  "m_UseCache stale_cache
   \<and> map_of (files stale_cache) (m_HashFile stale_cache)
       = Some (cache_file_bytes cache_header_42 [cached_record])
   \<and> contentHash (fst (readHeader (cache_file_bytes cache_header_42 [cached_record]))) = 42
   \<and> fst (compile_key example_hash stale_cache) \<noteq> 42
   \<and> fst (tryLoadCachedCode (fst (compile_key example_hash stale_cache))
             (snd (compile_key example_hash stale_cache))) = Inr False
   \<and> m_Result (snd (tryLoadCachedCode (fst (compile_key example_hash stale_cache))
                       (snd (compile_key example_hash stale_cache))))
       = \<lparr> status = NOT_READY, error = [] \<rparr>
   \<and> compile example_hash example_env False stale_cache
       = compile_live (compile example_hash example_env) example_hash example_env
           (snd (tryLoadCachedCode (fst (compile_key example_hash stale_cache))
                   (snd (compile_key example_hash stale_cache))))"
proof -
  have r: "map_of (files stale_cache) (m_HashFile stale_cache) = None
       \<or> (\<exists>content. map_of (files stale_cache) (m_HashFile stale_cache) = Some content
            \<and> (magic (fst (readHeader content)) \<noteq> CACHE_MAGIC
               \<or> version (fst (readHeader content)) \<noteq> CACHE_VERSION
               \<or> c_str (spirvProfile (fst (readHeader content))) \<noteq> SPIRV_PROFILE
               \<or> contentHash (fst (readHeader content)) \<noteq> fst (compile_key example_hash stale_cache)
               \<or> (\<exists>cs. readRecords (snd (readHeader content)) = Inr cs
                    \<and> (missingStage (m_ExpectedStages stale_cache) (m_CachedCodes stale_cache @ cs) \<noteq> None
                       \<or> missingEntryPoint (m_ExpectedEntryPoints stale_cache)
                            (m_CachedCodes stale_cache @ cs) \<noteq> None))))"
    using stale_cache_eval(2) stale_cache_key cache_header_42_read by auto
  show ?thesis
    using rejected_cache_is_soft_miss[OF stale_cache_eval(1) r, of example_env False]
      stale_cache_eval stale_cache_key cache_header_42_read
    by simp
qed

section \<open>Short reads in the cache load\<close>

lemma byte_of_word: "(of_char (char_of (unat (w::'a::len word))) :: 'a word) = take_bit 8 w"
proof -
  have "(256::nat) = 2 ^ 8" by simp
  then have "unat w mod 256 = take_bit 8 (unat w)" by (simp only: take_bit_eq_mod)
  then have "(of_nat (unat w mod 256) :: 'a word) = take_bit 8 (of_nat (unat w))"
    by (simp only: take_bit_of_nat)
  then show ?thesis by (simp add: of_char_char_of_nat)
qed

lemma le_u32_u32_le [simp]: "le_u32 (u32_le w) = w"
proof -
  have "take_bit 8 w OR push_bit 8 (take_bit 8 (drop_bit 8 w)
          OR push_bit 8 (take_bit 8 (drop_bit 16 w)
          OR push_bit 8 (take_bit 8 (drop_bit 24 w)))) = w"
  proof (rule bit_word_eqI)
    fix n assume "n < LENGTH(32)"
    then show "bit (take_bit 8 w OR push_bit 8 (take_bit 8 (drop_bit 8 w)
          OR push_bit 8 (take_bit 8 (drop_bit 16 w)
          OR push_bit 8 (take_bit 8 (drop_bit 24 w))))) n = bit w n"
      by (cases "n < 8"; cases "n < 16"; cases "n < 24") (auto simp: bit_simps)
  qed
  then show ?thesis
    by (simp add: le_u32_def u32_le_def byte_of_word)
qed

lemma length_u32_le [simp]: "length (u32_le w) = 4"
  by (simp add: u32_le_def)

lemma length_u64_le [simp]: "length (u64_le w) = 8"
  by (simp add: u64_le_def)

lemma length_char_array [simp]: "length (char_array n cs) = n"
  by (simp add: char_array_def)

lemma length_header_bytes [simp]: "length (header_bytes h) = 64"
  by (simp add: header_bytes_def)

lemma stream_read_exact:
  "length xs = n \<Longrightarrow> length buf = n \<Longrightarrow>
     stream_read n buf (xs @ rest, True) = (xs, (rest, True))"
  by (simp add: stream_read_def Let_def)

lemma read_u32_exact [simp]: "read_u32 (u32_le w @ rest, True) = (w, (rest, True))"
  by (simp add: read_u32_def stream_read_exact)


lemma length_concat_u32_le [simp]: "length (concat (map u32_le ws)) = 4 * length ws"
  by (induction ws) simp_all









section \<open>Cache save\<close>






lemma file_create_content [simp]: "map_of (files (file_create t s)) t = Some []"
  by (simp add: file_create_def Let_def update_conv')

lemma file_write_content [simp]:
  "map_of (files (file_write t b s)) t = Some (file_content (files s) t @ b)"
  by (simp add: file_write_def Let_def update_conv')





lemma saved_header_file_create [simp]:
  "saved_header H B (file_create t s) = saved_header H B s"
  by (simp add: saved_header_def save_key_def file_create_def Let_def split: prod.splits)






section \<open>The pipeline fingerprint\<close>

text \<open>
  Claim C1, evaluated on the code. The builder is the same in both calls (a fresh builder
  after \<open>setViewportState(0, 0)\<close>), the seed is 0 in both, and every shader stage lookup
  gives the same stage; only what the uninitialised accumulators of the sub-hash functions
  happen to hold differs (0 in the first call, 1 in the second). The two calls of
  \<open>getHash\<close> return different values.
\<close>

theorem getHash_depends_on_uninitialised_accumulator:
  "getHash example_hash (\<lambda>_. 1) (\<lambda>_. 0) 0 pipeline_example = Inr 17895815860668808232
   \<and> getHash example_hash (\<lambda>_. 1) (\<lambda>_. 1) 0 pipeline_example = Inr 1068154381800621650"
  by (simp add: getHash_def pipeline_example_def setViewportState_counts_def
        VulkanPipelineBuilder_init_def getVertexInputHash_def getInputAssemblyHash_def
        getViewportStateHash_def getRasterizationHash_def getMultisampleHash_def
        getDepthStencilHash_def getColorBlendHash_def getDynamicStateHash_def
        hashed_def for_each_def elems_def sub_hash_def stencil_values_def rect_values_def
        hashCombineAll_def hashCombine_def example_hash_def
        VK_FALSE_def VK_TRUE_def VK_PRIMITIVE_TOPOLOGY_TRIANGLE_LIST_def VK_POLYGON_MODE_FILL_def
        VK_CULL_MODE_BACK_BIT_def VK_FRONT_FACE_COUNTER_CLOCKWISE_def VK_SAMPLE_COUNT_1_BIT_def
        VK_COMPARE_OP_LESS_def VK_LOGIC_OP_COPY_def float_0_def float_1_def Let_def)

lemma seqs_skip:
  "f x = Inr [] \<Longrightarrow> seqs (map f (xs @ x # ys)) = seqs (map f (xs @ ys))"
  by (induction xs) (auto split: sum.splits)

text \<open>
  The sibling that loops: \<open>getViewportStateHash\<close> walks the whole chain, and a record of a
  structure type it does not name contributes nothing wherever it stands.
\<close>

lemma getViewportStateHash_skips_other:
  "getViewportStateHash H l_Hash
     (b\<lparr> m_ViewportState := st\<lparr> vp_pNext := xs @ OtherStructure ty bytes # ys \<rparr> \<rparr>)
   = getViewportStateHash H l_Hash (b\<lparr> m_ViewportState := st\<lparr> vp_pNext := xs @ ys \<rparr> \<rparr>)"
proof -
  have "viewport_ext (OtherStructure ty bytes) = Inr []" by (simp add: viewport_ext_def)
  then have "seqs (map viewport_ext (xs @ OtherStructure ty bytes # ys))
               = seqs (map viewport_ext (xs @ ys))"
    by (rule seqs_skip)
  then show ?thesis
    by (simp add: getViewportStateHash_def for_each_def Let_def cong: sum.case_cong)
qed

text \<open>
  Claim C2, evaluated on the code. \<open>getVertexInputHash\<close> and \<open>getTessellationHash\<close> look at
  the first record of the chain only: whatever follows it, recognised or not, does not
  enter the sub-hash. A vertex-input chain that starts with a divisor state has the divisor's
  binding and divisor combined; the same divisor state as second record is not combined.
\<close>

theorem vertexInput_and_tessellation_read_first_record_only:
  "getVertexInputHash H l_Hash (b\<lparr> m_VertexInputState := vi\<lparr> vi_pNext := r # rs \<rparr> \<rparr>)
     = getVertexInputHash H l_Hash (b\<lparr> m_VertexInputState := vi\<lparr> vi_pNext := [r] \<rparr> \<rparr>)
   \<and> getTessellationHash H l_Hash (b\<lparr> m_TessellationState := ts\<lparr> ts_pNext := r # rs \<rparr> \<rparr>)
       = getTessellationHash H l_Hash (b\<lparr> m_TessellationState := ts\<lparr> ts_pNext := [r] \<rparr> \<rparr>)
   \<and> getVertexInputHash H l_Hash
         (setVertexInputState
            \<lparr> vi_pNext = [VkPipelineVertexInputDivisorStateCreateInfoEXT (1, [(0, 7)])],
              vi_flags = 0, vi_bindings = (0, []), vi_attributes = (0, []) \<rparr> b)
       = Inr (hashCombineAll H l_Hash [HU32 0, HU32 7, HU32 0])
   \<and> getVertexInputHash H l_Hash
         (setVertexInputState
            \<lparr> vi_pNext = [OtherStructure 0 [],
                           VkPipelineVertexInputDivisorStateCreateInfoEXT (1, [(0, 7)])],
              vi_flags = 0, vi_bindings = (0, []), vi_attributes = (0, []) \<rparr> b)
       = Inr (hashCombineAll H l_Hash [HU32 0])"
  by (simp add: getVertexInputHash_def getTessellationHash_def setVertexInputState_def
        vertexInput_ext_def hashed_def for_each_def elems_def Let_def cong: sum.case_cong)


end
